theory Spec2Isabelle
  imports Complex_Main "HOL-Library.Log_Nat"
begin

section \<open>Identifiers, enumerations and errors\<close>

text \<open>
  Mongo ObjectIDs are natural numbers, dates are integer timestamps. GraphQL \<open>Int\<close> values
  (\<open>numPlaces\<close>, \<open>numSeats\<close>, \<open>placesLeft\<close>) are integers; they may be negative, exactly as
  the schema allows.
\<close>

type_synonym ObjectID = nat
type_synonym DateTime = int

datatype SplitStatus = ACTIVE | FILLED | EXPIRED | CANCELLED | COMPLETE

datatype SplitRoomMessageTypes =
  CLIENT_JOINED | CLIENT_EXITED | EXPIRATION_NOTICE | SPLIT_CREATED
  | SPLIT_CANCELLED | SPLIT_COMPLETED | SPLIT_RESET | SPLIT_EXTENDED

datatype SystemNotificationAction = RATE_SPLIT | OPEN_CONVERSATION

datatype UserRole = ADMIN | USER

datatype OrderStatusType =
  PAYMENT_PENDING | PAYMENT_FAILED | PAID | SYSTEM_CANCELED | OWNER_CANCELED
  | CLIENT_CANCELED | REFUND_REQUESTED | ORDER_COMPLETE | REFUNDED | SHIPPED | RECEIVED

datatype ConversationRole = full | readonly

text \<open>
  A thrown JavaScript value: \<open>new Error(message)\<close>, or the \<open>TypeError\<close> the runtime raises
  when a property of \<open>null\<close> or \<open>undefined\<close> is read.
\<close>

datatype error = Error string | TypeError string

fun message_of :: "error \<Rightarrow> string" where
  "message_of (Error m) = m"
| "message_of (TypeError m) = m"

definition null_read :: "string \<Rightarrow> error" where
  "null_read prop = TypeError (''Cannot read properties of null (reading '' @ prop @ '')'')"

definition undefined_read :: "string \<Rightarrow> error" where
  "undefined_read prop = TypeError (''Cannot read properties of undefined (reading '' @ prop @ '')'')"

text \<open>The uniform result envelope \<open>{code, success, message, <entity>}\<close>.\<close>

datatype 'a MutationResponse =
  MutationResponse (code: int) (success: bool) (message: "string option") (entity: "'a option")

definition ok_response :: "'a \<Rightarrow> 'a MutationResponse" where
  "ok_response x = MutationResponse 200 True None (Some x)"

definition fail_response :: "error \<Rightarrow> 'a MutationResponse" where
  "fail_response e = MutationResponse 501 False (Some (message_of e)) None"

text \<open>JavaScript truthiness of a number, and \<open>x || 0\<close>.\<close>

definition truthy :: "int \<Rightarrow> bool" where
  "truthy x = (x \<noteq> 0)"

definition or_zero :: "int \<Rightarrow> int" where
  "or_zero x = (if truthy x then x else 0)"

section \<open>JavaScript numbers\<close>

text \<open>
  A JavaScript number is an IEEE 754 double: \<open>NaN\<close>, an infinity, or a finite value, which is
  a rational. The sign of zero is not kept: no operation below divides by a zero that an
  operation has produced.
\<close>

datatype number = NaN | Infinity | NegInfinity | Finite rat

definition pow2 :: "int \<Rightarrow> rat" where
  "pow2 k = (if 0 \<le> k then 2 ^ nat k else 1 / 2 ^ nat (- k))"

definition pow10 :: "int \<Rightarrow> rat" where
  "pow10 k = (if 0 \<le> k then 10 ^ nat k else 1 / 10 ^ nat (- k))"

text \<open>
  The integer \<open>e\<close> with \<open>2 ^ e \<le> a < 2 ^ (e + 1)\<close>, for a positive \<open>a\<close>: the difference of
  the bit lengths of numerator and denominator, or one less.
\<close>

definition at_most_log2 :: "rat \<Rightarrow> int \<Rightarrow> int" where
  "at_most_log2 a e = (if pow2 e \<le> a then e else e - 1)"

definition floor_log2 :: "rat \<Rightarrow> int" where
  "floor_log2 a =
     at_most_log2 a (bitlen (fst (quotient_of a)) - bitlen (snd (quotient_of a)))"

definition round_half_even :: "rat \<Rightarrow> int" where
  "round_half_even r =
     (let f = \<lfloor>r\<rfloor>; d = r - of_int f
      in if d < 1 / 2 then f else if 1 / 2 < d then f + 1 else if even f then f else f + 1)"

text \<open>
  The double nearest to a rational, ties to the even significand. A double is a
  significand of at most 53 bits times a power of two, the least power being
  \<open>2 ^ -1074\<close>, that of the subnormal numbers; what rounds to \<open>2 ^ 1024\<close> or more is an
  infinity. \<open>last_bit\<close> is the exponent of the last bit of the significand.
\<close>

definition last_bit :: "rat \<Rightarrow> int" where
  "last_bit a = max (floor_log2 a - 52) (- 1074)"

definition with_significand :: "rat \<Rightarrow> int \<Rightarrow> int \<Rightarrow> number" where
  "with_significand x q m =
     (if 972 \<le> q \<or> (q = 971 \<and> m = 2 ^ 53)
      then (if 0 < x then Infinity else NegInfinity)
      else Finite (sgn x * of_int m * pow2 q))"

definition with_last_bit :: "rat \<Rightarrow> int \<Rightarrow> number" where
  "with_last_bit x q = with_significand x q (round_half_even (\<bar>x\<bar> / pow2 q))"

definition round_double :: "rat \<Rightarrow> number" where
  "round_double x = (if x = 0 then Finite 0 else with_last_bit x (last_bit \<bar>x\<bar>))"

text \<open>The operators \<open>/\<close>, \<open>*\<close> and \<open>+\<close> on numbers.\<close>

definition js_divide :: "number \<Rightarrow> number \<Rightarrow> number" where
  "js_divide v w =
     (case v of
        NaN \<Rightarrow> NaN
      | Infinity \<Rightarrow>
          (case w of Finite y \<Rightarrow> if 0 \<le> y then Infinity else NegInfinity | _ \<Rightarrow> NaN)
      | NegInfinity \<Rightarrow>
          (case w of Finite y \<Rightarrow> if 0 \<le> y then NegInfinity else Infinity | _ \<Rightarrow> NaN)
      | Finite x \<Rightarrow>
          (case w of
             NaN \<Rightarrow> NaN
           | Infinity \<Rightarrow> Finite 0
           | NegInfinity \<Rightarrow> Finite 0
           | Finite y \<Rightarrow>
               if y = 0 then (if x = 0 then NaN else if 0 < x then Infinity else NegInfinity)
               else round_double (x / y)))"

definition js_times :: "number \<Rightarrow> number \<Rightarrow> number" where
  "js_times v w =
     (case v of
        NaN \<Rightarrow> NaN
      | Infinity \<Rightarrow>
          (case w of
             NaN \<Rightarrow> NaN
           | Infinity \<Rightarrow> Infinity
           | NegInfinity \<Rightarrow> NegInfinity
           | Finite y \<Rightarrow> if y = 0 then NaN else if 0 < y then Infinity else NegInfinity)
      | NegInfinity \<Rightarrow>
          (case w of
             NaN \<Rightarrow> NaN
           | Infinity \<Rightarrow> NegInfinity
           | NegInfinity \<Rightarrow> Infinity
           | Finite y \<Rightarrow> if y = 0 then NaN else if 0 < y then NegInfinity else Infinity)
      | Finite x \<Rightarrow>
          (case w of
             NaN \<Rightarrow> NaN
           | Infinity \<Rightarrow> if x = 0 then NaN else if 0 < x then Infinity else NegInfinity
           | NegInfinity \<Rightarrow> if x = 0 then NaN else if 0 < x then NegInfinity else Infinity
           | Finite y \<Rightarrow> round_double (x * y)))"

definition js_plus :: "number \<Rightarrow> number \<Rightarrow> number" where
  "js_plus v w =
     (case v of
        NaN \<Rightarrow> NaN
      | Infinity \<Rightarrow> (case w of NaN \<Rightarrow> NaN | NegInfinity \<Rightarrow> NaN | _ \<Rightarrow> Infinity)
      | NegInfinity \<Rightarrow> (case w of NaN \<Rightarrow> NaN | Infinity \<Rightarrow> NaN | _ \<Rightarrow> NegInfinity)
      | Finite x \<Rightarrow> (case w of Finite y \<Rightarrow> round_double (x + y) | _ \<Rightarrow> w))"

text \<open>
  \<open>parseFloat(x.toFixed(2))\<close>. \<open>toFixed(2)\<close> writes the integer \<open>n\<close> for which \<open>n / 100\<close> is
  nearest to the exact value of \<open>\<bar>x\<bar>\<close>, the larger one of two, with its sign; from
  \<open>10 ^ 21\<close> on, and for what is not finite, it writes the number as \<open>String\<close> does.
  \<open>parseFloat\<close> reads the double nearest to what is written.
\<close>

definition parseFloat_toFixed2 :: "number \<Rightarrow> number" where
  "parseFloat_toFixed2 v =
     (case v of
        Finite x \<Rightarrow>
          if pow10 21 \<le> \<bar>x\<bar> then Finite x
          else round_double (sgn x * of_int \<lfloor>\<bar>x\<bar> * 100 + 1 / 2\<rfloor> / 100)
      | _ \<Rightarrow> v)"

text \<open>
  The decimal exponent of a positive double, and the digits that \<open>String\<close> writes for it:
  the fewest digits for which the decimal still reads as the same double, and of two such
  decimals the nearer one. With \<open>k\<close> digits, the candidates are the two multiples of
  \<open>scale\<close> around \<open>a\<close>. \<open>shortest_leading_digit\<close> is the first of these digits; 17
  digits always suffice.
\<close>

definition at_most_log10 :: "rat \<Rightarrow> int \<Rightarrow> int" where
  "at_most_log10 a g =
     (if pow10 (g + 1) \<le> a then g + 1 else if a < pow10 g then g - 1 else g)"

definition floor_log10 :: "rat \<Rightarrow> int" where
  "floor_log10 a = at_most_log10 a ((floor_log2 a * 30103) div 100000)"

definition leading_digit_of :: "rat \<Rightarrow> nat \<Rightarrow> rat \<Rightarrow> int \<Rightarrow> int option" where
  "leading_digit_of a k scale lo =
     (if round_double (of_int lo * scale) = Finite a
      then (if round_double (of_int (lo + 1) * scale) = Finite a
               \<and> (of_int (lo + 1) * scale - a < a - of_int lo * scale
                    \<or> (of_int (lo + 1) * scale - a = a - of_int lo * scale \<and> lo mod 2 = 1))
            then Some (if lo + 1 = 10 ^ k then 1 else (lo + 1) div 10 ^ (k - 1))
            else Some (lo div 10 ^ (k - 1)))
      else if round_double (of_int (lo + 1) * scale) = Finite a
      then Some (if lo + 1 = 10 ^ k then 1 else (lo + 1) div 10 ^ (k - 1))
      else None)"

definition scaled_digits :: "rat \<Rightarrow> nat \<Rightarrow> rat \<Rightarrow> int option" where
  "scaled_digits a k scale = leading_digit_of a k scale \<lfloor>a / scale\<rfloor>"

definition leading_digit_at :: "rat \<Rightarrow> nat \<Rightarrow> int option" where
  "leading_digit_at a k = scaled_digits a k (pow10 (floor_log10 a - int k + 1))"

fun shortest_leading_digit :: "rat \<Rightarrow> nat \<Rightarrow> nat \<Rightarrow> int" where
  "shortest_leading_digit a k 0 = 0"
| "shortest_leading_digit a k (Suc n) =
     (case leading_digit_at a k of
        Some d \<Rightarrow> d
      | None \<Rightarrow> shortest_leading_digit a (Suc k) n)"

text \<open>
  \<open>parseInt(x)\<close> on a number: \<open>x\<close> is written as \<open>String\<close> writes it, and the digits before
  the first character that is not one are read. In decimal notation, which is that of the
  doubles written from \<open>0.000001\<close> on and below \<open>10 ^ 21\<close>, these are the integer part of
  \<open>x\<close>; in exponent notation they are the first digit alone; \<open>NaN\<close> and \<open>Infinity\<close>
  have none. The double written \<open>0.000001\<close> is the one nearest to \<open>10 ^ -6\<close>.
\<close>

definition parseInt :: "number \<Rightarrow> number" where
  "parseInt v =
     (case v of
        Finite x \<Rightarrow>
          if x = 0 then Finite 0
          else if round_double (pow10 (- 6)) = Finite \<bar>x\<bar>
                  \<or> (pow10 (- 6) \<le> \<bar>x\<bar> \<and> \<bar>x\<bar> < pow10 21)
          then Finite (sgn x * of_int \<lfloor>\<bar>x\<bar>\<rfloor>)
          else Finite (sgn x * of_int (shortest_leading_digit \<bar>x\<bar> 1 17))
      | _ \<Rightarrow> NaN)"

section \<open>Documents\<close>

text \<open>
  The price of a Split is held as a rational, and the number it stands for is the double
  nearest to it. The amounts of an Order are the numbers that \<open>calcAmount\<close> returns.
\<close>

record Split =
  title :: string
  user :: ObjectID
  numPlaces :: int
  numSeats :: int
  ownerSeats :: int
  placesLeft :: int
  price :: rat
  expirationDate :: "DateTime option"
  status :: SplitStatus
  cancelReason :: "string option"
  conversation :: "ObjectID option"

record OrderMetadata =
  clientName :: string
  ownerName :: string
  splitTitle :: string
  amount :: number
  feeAmount :: number

record Order =
  order_id :: ObjectID
  client :: ObjectID
  owner :: ObjectID
  order_split :: ObjectID
  order_status :: OrderStatusType
  order_numSeats :: int
  paymentIntent :: string
  shippingAddress :: ObjectID
  paymentMethod :: string
  metadata :: OrderMetadata

record User =
  fullname :: string
  stripeAccountId :: string

text \<open>The authenticated caller, \<open>this.context.user\<close>.\<close>

record Context =
  ctx_id :: ObjectID
  ctx_role :: UserRole

record SystemMessage =
  sm_conversation :: "ObjectID option"
  sm_message :: string
  messageType :: SplitRoomMessageTypes
  action :: "SystemNotificationAction option"

text \<open>
  Modelled from the spec: the Conversation Service (\<open>models/Conversation\<close>), which the
  data sources call and whose code is not among the files covered here. It keeps one
  thread per Split with a participant list and the two roles \<open>full\<close> and \<open>readonly\<close>,
  and offers join, role change, removal of a participant, a system message and the
  read-only freeze. Its calls are taken to succeed.
\<close>

record Conversation =
  conv_id :: ObjectID
  conv_split :: ObjectID
  participants :: "(ObjectID \<times> ConversationRole) list"

text \<open>
  The payment gateway. \<open>StripeService\<close> is part of the sources; the provider behind it is
  not, so its answers are parameters of the state: the stored payment intents and accounts,
  what \<open>stripe.paymentIntents.retrieve\<close> throws for an id it does not know, and what
  \<open>stripe.refunds.create\<close> and \<open>stripe.paymentIntents.cancel\<close> throw, if anything. The
  calls that went through are logged.
\<close>

record PaymentIntent =
  pi_id :: string
  pi_status :: string
  payment_method :: "string option"
  client_secret :: string
  charges :: "string list option"

record Stripe =
  paymentIntents :: "string \<rightharpoonup> PaymentIntent"
  paymentIntents_retrieve_error :: "string \<Rightarrow> error"
  accounts :: "string \<rightharpoonup> bool"
  refunds_create_error :: "string \<Rightarrow> error option"
  paymentIntents_cancel_error :: "string \<Rightarrow> error option"
  refunds :: "(string \<times> bool) list"
  cancelled :: "string list"

text \<open>
  The collections. \<open>BaseDataSource.get\<close> and \<open>batch.load\<close> are the lookup by id and the
  query by field, with \<open>null\<close> for a document that does not exist. Ids are handed out
  from \<open>next_id\<close>.
\<close>

record state =
  splits :: "ObjectID \<rightharpoonup> Split"
  orders :: "Order list"
  users :: "ObjectID \<rightharpoonup> User"
  conversations :: "Conversation list"
  messages :: "SystemMessage list"
  stripe :: Stripe
  next_id :: ObjectID

section \<open>Conversation Service\<close>

text \<open>
  Modelled from the spec: the operations of the Conversation Service that the data sources
  call (\<open>sendSystemMessage\<close>, \<open>findOne\<close> by Split, \<open>checkMember\<close>, \<open>join\<close>,
  \<open>deleteParticipant\<close>, the role change and \<open>makeReadonly\<close>). A system message is
  appended to the log of messages; the others read or rewrite the participant list.
\<close>

definition sendSystemMessage ::
  "ObjectID option \<Rightarrow> string \<Rightarrow> SplitRoomMessageTypes \<Rightarrow> SystemNotificationAction option
    \<Rightarrow> state \<Rightarrow> state" where
  "sendSystemMessage c m t a st =
     st\<lparr>messages := messages st @
       [\<lparr>sm_conversation = c, sm_message = m, messageType = t, action = a\<rparr>]\<rparr>"

definition conversation_of :: "state \<Rightarrow> ObjectID \<Rightarrow> Conversation option" where
  "conversation_of st sid = find (\<lambda>c. conv_split c = sid) (conversations st)"

definition checkMember :: "Conversation \<Rightarrow> ObjectID \<Rightarrow> bool" where
  "checkMember c u = (u \<in> set (map fst (participants c)))"

definition update_conversation :: "ObjectID \<Rightarrow> (Conversation \<Rightarrow> Conversation) \<Rightarrow> state \<Rightarrow> state" where
  "update_conversation cid f st =
     st\<lparr>conversations := map (\<lambda>c. if conv_id c = cid then f c else c) (conversations st)\<rparr>"

definition conversations_join :: "ObjectID \<Rightarrow> ObjectID \<Rightarrow> ConversationRole \<Rightarrow> state \<Rightarrow> state" where
  "conversations_join cid u r =
     update_conversation cid (\<lambda>c. c\<lparr>participants := participants c @ [(u, r)]\<rparr>)"

definition deleteParticipant :: "ObjectID \<Rightarrow> ObjectID \<Rightarrow> state \<Rightarrow> state" where
  "deleteParticipant cid u =
     update_conversation cid (\<lambda>c. c\<lparr>participants := filter (\<lambda>p. fst p \<noteq> u) (participants c)\<rparr>)"

definition setRole :: "ObjectID \<Rightarrow> ObjectID \<Rightarrow> ConversationRole \<Rightarrow> state \<Rightarrow> state" where
  "setRole cid u r =
     update_conversation cid
       (\<lambda>c. c\<lparr>participants := map (\<lambda>p. if fst p = u then (u, r) else p) (participants c)\<rparr>)"

definition makeReadonly :: "ObjectID \<Rightarrow> state \<Rightarrow> state" where
  "makeReadonly sid st =
     st\<lparr>conversations :=
       map (\<lambda>c. if conv_split c = sid
                then c\<lparr>participants := map (\<lambda>p. (fst p, readonly)) (participants c)\<rparr> else c)
         (conversations st)\<rparr>"

section \<open>Seat accounting: \<open>SplitDataSource.incrementNumSeats\<close>\<close>

definition msg_split_completed :: string where
  "msg_split_completed =
     ''Congratulations! All the Seats are taken. Split Creator will process all of your orders soon. Stay tuned for updates.''"

definition msg_split_reset :: string where
  "msg_split_reset =
     ''Oh no! Someone has cancelled his order and now Split is no longer complete''"

text \<open>
  \<open>findOneAndUpdate\<close> with \<open>$inc\<close> and \<open>new: true\<close> returns the updated document, or
  \<open>null\<close> when no Split has the id; the read of \<open>split.status\<close> then throws.
\<close>

definition inc_seats :: "int \<Rightarrow> Split \<Rightarrow> Split" where
  "inc_seats n s = s\<lparr>numSeats := numSeats s + n, placesLeft := placesLeft s + (- n)\<rparr>"

definition splits_incrementNumSeats :: "ObjectID \<Rightarrow> int \<Rightarrow> state \<Rightarrow> error + state" where
  "splits_incrementNumSeats sid n st =
     (case splits st sid of
        None \<Rightarrow> Inl (null_read ''status'')
      | Some old \<Rightarrow>
          let split = inc_seats n old in
          if status split = ACTIVE \<and> placesLeft split \<le> 0 then
            Inr (sendSystemMessage (conversation split) msg_split_completed SPLIT_COMPLETED
                   (Some RATE_SPLIT)
                   (st\<lparr>splits := (splits st)(sid \<mapsto> split\<lparr>status := COMPLETE\<rparr>)\<rparr>))
          else if status split = COMPLETE \<and> placesLeft split > 0 then
            Inr (sendSystemMessage (conversation split) msg_split_reset SPLIT_RESET
                   (Some OPEN_CONVERSATION)
                   (st\<lparr>splits := (splits st)(sid \<mapsto> split\<lparr>status := ACTIVE\<rparr>)\<rparr>))
          else Inr (st\<lparr>splits := (splits st)(sid \<mapsto> split)\<rparr>))"

section \<open>Creating and updating a Split\<close>

record CreateSplitInput =
  in_title :: string
  in_numPlaces :: int
  in_numSeats :: int
  in_price :: rat
  in_expirationDate :: "DateTime option"

definition msg_numSeats_too_big :: string where
  "msg_numSeats_too_big = ''NumSeats can't be bigger than numPlaces''"

definition msg_not_eligible :: string where
  "msg_not_eligible =
     ''This user is not eligible for payments yet. Use the onboarding link to enable this functionality''"

definition msg_split_not_found :: string where
  "msg_split_not_found = ''Split not found''"

definition msg_update_forbidden :: string where
  "msg_update_forbidden = ''Forbidden. Only Split's owner or admin can update splits''"

text \<open>\<open>StripeService.chargesEnabled\<close>: retrieving an unknown account throws.\<close>

definition chargesEnabled :: "Stripe \<Rightarrow> string \<Rightarrow> error + bool" where
  "chargesEnabled g acct =
     (case accounts g acct of
        None \<Rightarrow> Inl (Error (''No such account: '' @ acct))
      | Some enabled \<Rightarrow> Inr enabled)"

text \<open>
  \<open>SplitDataSource.create\<close>. The new Split gets a fresh id, its Conversation the next one.
  The owner's cached split count, which the source refreshes without waiting for it, is
  not part of the state.
\<close>

definition new_split :: "Context \<Rightarrow> CreateSplitInput \<Rightarrow> ObjectID \<Rightarrow> Split" where
  "new_split ctx split cid =
     \<lparr>title = in_title split, user = ctx_id ctx,
      numPlaces = in_numPlaces split, numSeats = in_numSeats split,
      ownerSeats = or_zero (in_numSeats split),
      placesLeft = or_zero (in_numPlaces split) - or_zero (in_numSeats split),
      price = in_price split, expirationDate = in_expirationDate split,
      status = ACTIVE, cancelReason = None, conversation = Some cid\<rparr>"

definition splits_create ::
  "Context \<Rightarrow> CreateSplitInput \<Rightarrow> state \<Rightarrow> Split MutationResponse \<times> state" where
  "splits_create ctx split st =
     (if in_numPlaces split \<le> in_numSeats split
      then (fail_response (Error msg_numSeats_too_big), st)
      else case users st (ctx_id ctx) of
        None \<Rightarrow> (fail_response (null_read ''stripeAccountId''), st)
      | Some u \<Rightarrow>
          (case chargesEnabled (stripe st) (stripeAccountId u) of
             Inl e \<Rightarrow> (fail_response e, st)
           | Inr enabled \<Rightarrow>
               if \<not> enabled then (fail_response (Error msg_not_eligible), st)
               else
                 let sid = next_id st; cid = Suc (next_id st);
                     newSplit = new_split ctx split cid
                 in (ok_response newSplit,
                     sendSystemMessage (Some cid) (fullname u @ '' created this Split'')
                       SPLIT_CREATED None
                       (st\<lparr>splits := (splits st)(sid \<mapsto> newSplit),
                           conversations := conversations st @
                             [\<lparr>conv_id = cid, conv_split = sid, participants = []\<rparr>],
                           next_id := Suc (Suc (next_id st))\<rparr>))))"

text \<open>The date template \<open>yyyy LLL dd\<close> of the date library, kept as the digits of the timestamp.\<close>

function show_nat :: "nat \<Rightarrow> string" where
  "show_nat n =
     (if n < 10 then [char_of (48 + n)] else show_nat (n div 10) @ [char_of (48 + n mod 10)])"
  by pat_completeness auto
termination
  by (relation "measure id") auto

definition show_int :: "int \<Rightarrow> string" where
  "show_int i = (if i < 0 then ''-'' @ show_nat (nat (- i)) else show_nat (nat i))"

definition toFormat :: "DateTime \<Rightarrow> string" where
  "toFormat d = show_int d"

text \<open>
  \<open>SplitDataSource.update\<close>: \<open>placesLeft\<close> is recomputed only when \<open>numPlaces\<close> or
  \<open>numSeats\<close> of the input is truthy; \<open>findOneAndUpdate\<close> then stores every field of the
  input, and \<open>placesLeft\<close> when it was computed.
\<close>

definition apply_update :: "CreateSplitInput \<Rightarrow> int option \<Rightarrow> Split \<Rightarrow> Split" where
  "apply_update split pl doc =
     doc\<lparr>title := in_title split,
         numPlaces := in_numPlaces split, numSeats := in_numSeats split,
         price := in_price split,
         expirationDate :=
           (case in_expirationDate split of None \<Rightarrow> expirationDate doc | Some d \<Rightarrow> Some d),
         placesLeft := (case pl of None \<Rightarrow> placesLeft doc | Some p \<Rightarrow> p)\<rparr>"

definition splits_updateSplit ::
  "Context \<Rightarrow> ObjectID \<Rightarrow> CreateSplitInput \<Rightarrow> state \<Rightarrow> Split MutationResponse \<times> state" where
  "splits_updateSplit ctx sid split st =
     (case splits st sid of
        None \<Rightarrow> (fail_response (Error msg_split_not_found), st)
      | Some splitData \<Rightarrow>
          if ctx_id ctx \<noteq> user splitData \<and> ctx_role ctx \<noteq> ADMIN
          then (fail_response (Error msg_update_forbidden), st)
          else
            let pl = (if truthy (in_numPlaces split) \<or> truthy (in_numSeats split)
                      then Some (or_zero (in_numPlaces split) - or_zero (in_numSeats split))
                      else None);
                updatedSplit = apply_update split pl splitData;
                st1 = st\<lparr>splits := (splits st)(sid \<mapsto> updatedSplit)\<rparr>
            in (ok_response updatedSplit,
                (case in_expirationDate split of
                   None \<Rightarrow> st1
                 | Some d \<Rightarrow>
                     sendSystemMessage (conversation splitData)
                       (''Split expiration date was changed to '' @ toFormat d) SPLIT_EXTENDED
                       (Some OPEN_CONVERSATION) st1)))"

text \<open>The seat equation of the spec.\<close>

definition seats_balanced :: "Split \<Rightarrow> bool" where
  "seats_balanced s = (numSeats s + placesLeft s = numPlaces s)"

section \<open>Payment gateway: \<open>StripeService\<close>\<close>

text \<open>The provider's payment states, \<open>StripePaymentStatusType\<close>.\<close>

definition FAILED :: string where "FAILED = ''payment_failed''"
definition PROCESSING :: string where "PROCESSING = ''processing''"
definition CANCELED :: string where "CANCELED = ''canceled''"
definition SUCCESS :: string where "SUCCESS = ''succeeded''"

definition msg_not_successful :: string where
  "msg_not_successful = ''paymentIntent is not successful''"

definition msg_no_charges :: string where
  "msg_no_charges = ''paymentIntent doesn't have charges''"

text \<open>
  \<open>getPaymentIntent\<close> turns a failed retrieval into \<open>null\<close>. \<open>refund\<close> retrieves
  without that guard, so an unknown id throws there and its own test for a missing intent
  never fires; it then insists on a succeeded intent with charges and creates the refund
  on the first charge, which the provider may reject.
  \<open>isEmpty(paymentIntent.charges)\<close> holds for an absent list; a present but empty one
  passes it and the read of \<open>data[0].id\<close> throws.
\<close>

definition getPaymentIntent :: "Stripe \<Rightarrow> string \<Rightarrow> PaymentIntent option" where
  "getPaymentIntent g p = paymentIntents g p"

definition cancelPaymentIntent :: "string \<Rightarrow> Stripe \<Rightarrow> error + Stripe" where
  "cancelPaymentIntent p g =
     (case paymentIntents_cancel_error g p of
        Some e \<Rightarrow> Inl e
      | None \<Rightarrow> Inr (g\<lparr>cancelled := cancelled g @ [p]\<rparr>))"

definition refund :: "string \<Rightarrow> bool \<Rightarrow> Stripe \<Rightarrow> error + Stripe" where
  "refund piid refund_application_fee g =
     (case paymentIntents g piid of
        None \<Rightarrow> Inl (paymentIntents_retrieve_error g piid)
      | Some p \<Rightarrow>
          if pi_status p \<noteq> SUCCESS then Inl (Error msg_not_successful)
          else
            (case charges p of
               None \<Rightarrow> Inl (Error msg_no_charges)
             | Some [] \<Rightarrow> Inl (undefined_read ''id'')
             | Some (c # cs) \<Rightarrow>
                 (case refunds_create_error g c of
                    Some e \<Rightarrow> Inl e
                  | None \<Rightarrow>
                      Inr (g\<lparr>refunds := refunds g @ [(c, refund_application_fee)]\<rparr>))))"

section \<open>Bulk cancellation: \<open>OrderDataSource.bulkCancel\<close>\<close>

text \<open>\<open>String.prototype.includes\<close>.\<close>

fun starts_with :: "string \<Rightarrow> string \<Rightarrow> bool" where
  "starts_with s [] = True"
| "starts_with [] (p # ps) = False"
| "starts_with (c # cs) (p # ps) = (c = p \<and> starts_with cs ps)"

fun str_includes :: "string \<Rightarrow> string \<Rightarrow> bool" where
  "str_includes [] p = (p = [])"
| "str_includes (c # cs) p = (starts_with (c # cs) p \<or> str_includes cs p)"

definition already_reversed :: "error \<Rightarrow> bool" where
  "already_reversed e = str_includes (message_of e) ''already fully reversed''"

definition msg_session_required :: string where
  "msg_session_required = ''session is required to do bulkCancel''"

text \<open>
  \<open>Promise.all\<close> over the mapped refunds: every refund is issued, an error counts unless
  its message includes "already fully reversed", and the batch rejects when one counts.
  The refunds run in the order of the list here; the rejection reported is that of the
  first Order in the list whose refund fails.
\<close>

fun refund_all :: "Order list \<Rightarrow> Stripe \<Rightarrow> error option \<times> Stripe" where
  "refund_all [] g = (None, g)"
| "refund_all (x # xs) g =
     (case refund (paymentIntent x) True g of
        Inr g' \<Rightarrow> refund_all xs g'
      | Inl e \<Rightarrow>
          (if already_reversed e then refund_all xs g
           else (Some e, snd (refund_all xs g))))"

definition set_status_of_split :: "ObjectID \<Rightarrow> OrderStatusType \<Rightarrow> Order list \<Rightarrow> Order list" where
  "set_status_of_split sid stat xs =
     map (\<lambda>x. if order_split x = sid then x\<lparr>order_status := stat\<rparr> else x) xs"

text \<open>
  The result is the error thrown, if any. \<open>updateMany\<close> is given no session: it is one
  write on every Order of the Split, outside the caller's transaction.
\<close>

definition orders_bulkCancel ::
  "ObjectID \<Rightarrow> OrderStatusType \<Rightarrow> bool \<Rightarrow> state \<Rightarrow> error option \<times> state" where
  "orders_bulkCancel sid stat extSession st =
     (if \<not> extSession then (Some (Error msg_session_required), st)
      else
        let ordersData = filter (\<lambda>x. order_split x = sid) (orders st) in
        case refund_all ordersData (stripe st) of
          (Some e, g) \<Rightarrow> (Some e, st\<lparr>stripe := g\<rparr>)
        | (None, g) \<Rightarrow>
            (None, st\<lparr>stripe := g, orders := set_status_of_split sid stat (orders st)\<rparr>))"

text \<open>
  Two notions for the proofs about \<open>bulkCancel\<close>, read off the gateway: what the refund
  of an Order's payment intent adds to the log of refunds, and whether that refund goes
  through or fails with an error that is swallowed.
\<close>

definition refund_log_entry :: "Stripe \<Rightarrow> Order \<Rightarrow> (string \<times> bool) list" where
  "refund_log_entry g x =
     (case paymentIntents g (paymentIntent x) of
        None \<Rightarrow> []
      | Some p \<Rightarrow>
          if pi_status p = ''succeeded''
          then (case charges p of
                  Some (c # cs) \<Rightarrow>
                    (case refunds_create_error g c of None \<Rightarrow> [(c, True)] | Some e \<Rightarrow> [])
                | _ \<Rightarrow> [])
          else [])"

definition refund_tolerated :: "Stripe \<Rightarrow> Order \<Rightarrow> bool" where
  "refund_tolerated g x =
     (case paymentIntents g (paymentIntent x) of
        None \<Rightarrow>
          str_includes (message_of (paymentIntents_retrieve_error g (paymentIntent x)))
            ''already fully reversed''
      | Some p \<Rightarrow>
          pi_status p = ''succeeded''
          \<and> (case charges p of
                Some (c # cs) \<Rightarrow>
                  (case refunds_create_error g c of
                     None \<Rightarrow> True
                   | Some e \<Rightarrow> str_includes (message_of e) ''already fully reversed'')
              | _ \<Rightarrow> False))"

section \<open>Cancelling a Split: \<open>cancel\<close>, \<open>cancelAction\<close>, \<open>expire\<close>\<close>

definition msg_expired :: string where
  "msg_expired =
     ''Oh no! The Split's time has ended and you don't have all the seats filled. All funds will be refunded within 7 days. Good luck in next Splits!''"

definition msg_cancelled_default :: string where
  "msg_cancelled_default =
     ''Something went wrong! This Split is now cancelled. All funds will be refunded within 7 days. Good luck in next Splits!''"

text \<open>A JavaScript string is truthy unless it is missing or empty.\<close>

definition truthy_reason :: "string option \<Rightarrow> string option" where
  "truthy_reason reason = (case reason of None \<Rightarrow> None | Some r \<Rightarrow> if r = [] then None else Some r)"

definition splitCancelMessage :: "SplitStatus \<Rightarrow> string option \<Rightarrow> string" where
  "splitCancelMessage stat reason =
     (case stat of
        EXPIRED \<Rightarrow> msg_expired
      | CANCELLED \<Rightarrow>
          ''Something went wrong! The Split's Creator cancelled this split'' @
          (case truthy_reason reason of
             Some r \<Rightarrow> '', stating the reason: '' @ [CHR 0x22] @ r @ [CHR 0x22]
                        @ ''. We hope this is a good reason.''
           | None \<Rightarrow> ''. We hope there's a good reason.'') @
          '' All funds will be refunded within 7 days. Good luck in next Splits!''
      | _ \<Rightarrow> msg_cancelled_default)"

text \<open>
  \<open>SplitDataSource.cancel\<close>: the Split is read first; inside the transaction all Orders
  are bulk-cancelled with \<open>OWNER_CANCELED\<close>, then the Split gets the status given and the
  reason (or \<open>null\<close>), the Conversation is frozen and one system message is posted. When no
  Split has the id, the write of \<open>split.status\<close> throws after the bulk cancellation. The
  state returned with an error holds what is not undone: the refunds issued.
\<close>

definition splits_cancel ::
  "ObjectID \<Rightarrow> string option \<Rightarrow> SplitStatus \<Rightarrow> state \<Rightarrow> (error + Split) \<times> state" where
  "splits_cancel sid reason stat st =
     (case orders_bulkCancel sid OWNER_CANCELED True st of
        (Some e, st1) \<Rightarrow> (Inl e, st1)
      | (None, st1) \<Rightarrow>
          (case splits st sid of
             None \<Rightarrow> (Inl (TypeError ''Cannot set properties of null (setting status)''), st1)
           | Some split0 \<Rightarrow>
               let split = split0\<lparr>status := stat, cancelReason := truthy_reason reason\<rparr>;
                   st2 = st1\<lparr>splits := (splits st1)(sid \<mapsto> split)\<rparr>;
                   st3 = makeReadonly sid st2
               in (Inr split,
                   sendSystemMessage (conversation split) (splitCancelMessage stat reason)
                     SPLIT_CANCELLED (Some OPEN_CONVERSATION) st3)))"

definition msg_already_terminal :: string where
  "msg_already_terminal = ''Split is already completed, cancelled or expired''"

definition msg_only_owner :: string where
  "msg_only_owner = ''Only Split Owner can cancel a Split''"

definition terminal :: "SplitStatus \<Rightarrow> bool" where
  "terminal stat = (stat \<in> set [COMPLETE, EXPIRED, CANCELLED])"

definition splits_cancelAction ::
  "Context \<Rightarrow> ObjectID \<Rightarrow> string option \<Rightarrow> state \<Rightarrow> Split MutationResponse \<times> state" where
  "splits_cancelAction ctx sid reason st =
     (case splits st sid of
        None \<Rightarrow> (fail_response (null_read ''status''), st)
      | Some splitData \<Rightarrow>
          if terminal (status splitData)
          then (fail_response (Error msg_already_terminal), st)
          else if user splitData \<noteq> ctx_id ctx \<and> ctx_role ctx \<noteq> ADMIN
          then (fail_response (Error msg_only_owner), st)
          else
            (case splits_cancel sid reason CANCELLED st of
               (Inl e, st') \<Rightarrow> (fail_response e, st')
             | (Inr split, st') \<Rightarrow> (ok_response split, st')))"

text \<open>
  \<open>SplitDataSource.expire\<close>. The query asks for \<open>expirationDate \<le> now\<close> and for nothing
  else (ids are handed out from \<open>next_id\<close>, so the collection is scanned by id). The
  source does not wait for \<open>this.model.find\<close>: \<open>toExpire\<close> is the query, not the array
  of the documents it matches.
\<close>

datatype 'a found = Query "'a list" | Documents "'a list"

definition toExpire :: "DateTime \<Rightarrow> state \<Rightarrow> ObjectID found" where
  "toExpire now st =
     Query
       (filter (\<lambda>sid. case splits st sid of
                       None \<Rightarrow> False
                     | Some s \<Rightarrow>
                         (case expirationDate s of None \<Rightarrow> False | Some d \<Rightarrow> d \<le> now))
          [0..<next_id st])"

text \<open>
  \<open>Promise.allSettled(toExpire.map(f))\<close>. On an array every call of \<open>f\<close> runs, whatever
  the others do. A query is not iterable: its \<open>map\<close>, where it has one, hands back the
  query without calling \<open>f\<close>, and \<open>Promise.allSettled\<close> rejects with a \<open>TypeError\<close>.
\<close>

definition allSettled_map ::
  "(ObjectID \<Rightarrow> state \<Rightarrow> state) \<Rightarrow> ObjectID found \<Rightarrow> state \<Rightarrow> error + state" where
  "allSettled_map f v st =
     (case v of
        Documents xs \<Rightarrow> Inr (fold f xs st)
      | Query xs \<Rightarrow> Inl (TypeError ''object is not iterable''))"

text \<open>The \<open>catch\<close> block of \<open>expire\<close> logs the error and returns.\<close>

definition splits_expire :: "DateTime \<Rightarrow> bool \<Rightarrow> state \<Rightarrow> state" where
  "splits_expire now dry st =
     (if dry then st
      else case allSettled_map (\<lambda>sid acc. snd (splits_cancel sid None EXPIRED acc))
                  (toExpire now st) st of
             Inl e \<Rightarrow> st
           | Inr st' \<Rightarrow> st')"

section \<open>Joining and leaving a Split: \<open>join\<close>, \<open>exit\<close>\<close>

definition msg_conversation_not_found :: string where
  "msg_conversation_not_found = ''Conversation not found''"

definition msg_already_member :: string where
  "msg_already_member = ''The Client is already a Conversation Member''"

definition msg_not_member :: string where
  "msg_not_member = ''The Client is not a Conversation Member''"

definition msg_no_seats_taken :: string where
  "msg_no_seats_taken =
     ''Split has no seats taken. Who's supposed to exit and why did this happen?''"

definition splits_join ::
  "ObjectID \<Rightarrow> Order \<Rightarrow> ObjectID \<Rightarrow> User \<Rightarrow> ConversationRole \<Rightarrow> state \<Rightarrow> error + state" where
  "splits_join sid ord cl cl_user role st =
     (case conversation_of st sid of
        None \<Rightarrow> Inl (Error msg_conversation_not_found)
      | Some c \<Rightarrow>
          if checkMember c cl then Inl (Error msg_already_member)
          else
            (case splits_incrementNumSeats sid (order_numSeats ord) st of
               Inl e \<Rightarrow> Inl e
             | Inr st1 \<Rightarrow>
                 Inr (conversations_join (conv_id c) cl role
                        (sendSystemMessage (Some (conv_id c))
                           (fullname cl_user @ '' reserved '' @ show_int (order_numSeats ord)
                              @ '' seats'')
                           CLIENT_JOINED (Some OPEN_CONVERSATION) st1))))"

definition splits_exit :: "ObjectID \<Rightarrow> Order \<Rightarrow> ObjectID \<Rightarrow> string \<Rightarrow> state \<Rightarrow> error + state" where
  "splits_exit sid ord cl msg st =
     (case splits st sid of
        None \<Rightarrow> Inl (null_read ''numSeats'')
      | Some splitData \<Rightarrow>
          if \<not> truthy (numSeats splitData) then Inl (Error msg_no_seats_taken)
          else
            (case conversation_of st sid of
               None \<Rightarrow> Inl (Error msg_conversation_not_found)
             | Some c \<Rightarrow>
                 if \<not> checkMember c cl then Inl (Error msg_not_member)
                 else
                   (case splits_incrementNumSeats sid (- order_numSeats ord) st of
                      Inl e \<Rightarrow> Inl e
                    | Inr st1 \<Rightarrow>
                        Inr (sendSystemMessage (conversation splitData) msg CLIENT_EXITED
                               (Some OPEN_CONVERSATION)
                               (deleteParticipant (conv_id c) cl st1)))))"

text \<open>
  Modelled from the spec: \<open>updateParticipantRole\<close>, which \<open>updateOrderStatus\<close> calls on
  the Split data source and which \<open>SplitDataSource\<close> does not define. It is the role
  change of the Conversation Service on the thread of the Split.
\<close>

definition updateParticipantRole :: "ObjectID \<Rightarrow> ObjectID \<Rightarrow> ConversationRole \<Rightarrow> state \<Rightarrow> state" where
  "updateParticipantRole sid u role st =
     (case conversation_of st sid of None \<Rightarrow> st | Some c \<Rightarrow> setRole (conv_id c) u role st)"

section \<open>Amounts: \<open>OrderDataSource.calcAmount\<close>\<close>

text \<open>The configuration: \<open>SYSTEM_FEE\<close>, a number.\<close>

record Config =
  SYSTEM_FEE :: number

definition orders_calcAmount :: "Config \<Rightarrow> Split \<Rightarrow> int \<Rightarrow> number \<times> number" where
  "orders_calcAmount cfg split n =
     (let perSplitPrice =
            js_divide (round_double (price split)) (round_double (of_int (numPlaces split)));
          amt = parseFloat_toFixed2 (js_times perSplitPrice (round_double (of_int n)));
          fee = parseFloat_toFixed2 (js_times amt (SYSTEM_FEE cfg))
      in (parseInt (js_times (js_plus amt fee) (Finite 100)),
          parseInt (js_times fee (Finite 100))))"

section \<open>Creating an Order: \<open>OrderDataSource.create\<close>\<close>

record CreateOrderInput =
  req_split :: ObjectID
  req_numSeats :: int
  req_shippingAddress :: ObjectID
  req_paymentIntent :: string

text \<open>
  The response of \<open>createOrder\<close>: the envelope, and the client secret of the payment
  intent on failure. The \<open>conversation\<close> field of a success, a query that the source
  does not wait for, is left out.
\<close>

datatype CreateOrderResponse =
  CreateOrderResponse (envelope: "Order MutationResponse") (secret: "string option")

text \<open>The variable \<open>paymentIntent\<close>, declared before the \<open>try\<close> and assigned inside it.\<close>

datatype 'a js_var = Unassigned | Null | Assigned 'a

definition exitableStatuses :: "string option list" where
  "exitableStatuses = [Some CANCELED]"

definition promotableStatuses :: "string option list" where
  "promotableStatuses = [Some SUCCESS]"

text \<open>
  The source lists \<open>StripePaymentStatusType.PAYMENT_FAILED\<close> here, a key the enumeration
  does not have: the list holds \<open>undefined\<close>.
\<close>

definition demotableStatuses :: "string option list" where
  "demotableStatuses = [None]"

definition eventStatusMap :: "string \<Rightarrow> OrderStatusType option" where
  "eventStatusMap s =
     (if s = CANCELED then Some SYSTEM_CANCELED
      else if s = FAILED then Some PAYMENT_FAILED
      else if s = SUCCESS then Some PAID
      else None)"

definition cancelled_statuses :: "OrderStatusType list" where
  "cancelled_statuses = [SYSTEM_CANCELED, OWNER_CANCELED, CLIENT_CANCELED]"

definition existingOrder :: "Context \<Rightarrow> CreateOrderInput \<Rightarrow> state \<Rightarrow> Order option" where
  "existingOrder ctx ord st =
     find (\<lambda>x. paymentIntent x = req_paymentIntent ord
              \<or> (order_split x = req_split ord \<and> client x = ctx_id ctx
                 \<and> order_status x \<notin> set cancelled_statuses))
       (orders st)"

definition msg_duplicate :: string where
  "msg_duplicate = ''This User already ordered this Split or paymentIntent already used''"

definition msg_no_paymentIntent :: string where
  "msg_no_paymentIntent = ''Can't find a paymentIntent with specified ID''"

definition msg_no_split :: string where
  "msg_no_split = ''Can't find a Split with specified ID''"

definition msg_too_many_seats :: string where
  "msg_too_many_seats = ''Can't order this many seats''"

definition msg_no_client :: string where
  "msg_no_client = ''How is it even possible to Order without authentication?''"

definition msg_no_owner :: string where
  "msg_no_owner = ''Split owner not found, the Split must be invalid or a test one''"

definition build_order ::
  "Config \<Rightarrow> CreateOrderInput \<Rightarrow> ObjectID \<Rightarrow> PaymentIntent \<Rightarrow> Split \<Rightarrow> ObjectID \<Rightarrow> User
    \<Rightarrow> User \<Rightarrow> Order" where
  "build_order cfg ord oid p split cl cl_user ow_user =
     \<lparr>order_id = oid, client = cl, owner = user split, order_split = req_split ord,
      order_status = (case eventStatusMap (pi_status p) of
                        Some stat \<Rightarrow> stat | None \<Rightarrow> PAYMENT_PENDING),
      order_numSeats = req_numSeats ord,
      paymentIntent = req_paymentIntent ord,
      shippingAddress = req_shippingAddress ord,
      paymentMethod = (case payment_method p of
                         None \<Rightarrow> ''pending''
                       | Some m \<Rightarrow> if m = [] then ''pending'' else m),
      metadata = \<lparr>clientName = fullname cl_user, ownerName = fullname ow_user,
                  splitTitle = title split,
                  amount = fst (orders_calcAmount cfg split (req_numSeats ord)),
                  feeAmount = snd (orders_calcAmount cfg split (req_numSeats ord))\<rparr>\<rparr>"

text \<open>
  The transaction of \<open>create\<close>: the Order is stored, then the client joins the Split. A
  failure of the join aborts the transaction, and nothing of it remains.
\<close>

definition create_transaction ::
  "Order \<Rightarrow> User \<Rightarrow> PaymentIntent \<Rightarrow> state \<Rightarrow> error + state" where
  "create_transaction newOrder cl_user p st =
     splits_join (order_split newOrder) newOrder (client newOrder) cl_user
       (if Some (pi_status p) \<in> set promotableStatuses then full else readonly)
       (st\<lparr>orders := orders st @ [newOrder], next_id := Suc (next_id st)\<rparr>)"

text \<open>The checks and the transaction that follow the retrieval of the payment intent.\<close>

definition create_checked ::
  "Config \<Rightarrow> Context \<Rightarrow> CreateOrderInput \<Rightarrow> PaymentIntent \<Rightarrow> state \<Rightarrow> error + Order \<times> state" where
  "create_checked cfg ctx ord p st =
     (case splits st (req_split ord) of
        None \<Rightarrow> Inl (Error msg_no_split)
      | Some split \<Rightarrow>
          if placesLeft split < req_numSeats ord then Inl (Error msg_too_many_seats)
          else
            (case users st (ctx_id ctx) of
               None \<Rightarrow> Inl (Error msg_no_client)
             | Some cl_user \<Rightarrow>
                 (case users st (user split) of
                    None \<Rightarrow> Inl (Error msg_no_owner)
                  | Some ow_user \<Rightarrow>
                      let newOrder =
                            build_order cfg ord (next_id st) p split (ctx_id ctx) cl_user ow_user
                      in (case create_transaction newOrder cl_user p st of
                            Inl e \<Rightarrow> Inl e
                          | Inr st' \<Rightarrow> Inr (newOrder, st')))))"

text \<open>
  The \<open>try\<close> block. An error comes with the value the variable \<open>paymentIntent\<close> has when
  it is thrown.
\<close>

definition create_try ::
  "Config \<Rightarrow> Context \<Rightarrow> CreateOrderInput \<Rightarrow> state
    \<Rightarrow> error \<times> PaymentIntent js_var + Order \<times> state" where
  "create_try cfg ctx ord st =
     (case existingOrder ctx ord st of
        Some x \<Rightarrow> Inl (Error msg_duplicate, Unassigned)
      | None \<Rightarrow>
          (case getPaymentIntent (stripe st) (req_paymentIntent ord) of
             None \<Rightarrow> Inl (Error msg_no_paymentIntent, Null)
           | Some p \<Rightarrow>
               (case create_checked cfg ctx ord p st of
                  Inl e \<Rightarrow> Inl (e, Assigned p)
                | Inr r \<Rightarrow> Inr r)))"

text \<open>
  The \<open>catch\<close> block reads \<open>paymentIntent.status\<close> first: with the variable unassigned or
  \<open>null\<close> that read throws, and the error leaves \<open>create\<close>. Otherwise the intent is
  refunded with the fee when it has succeeded and cancelled when not, an error of the
  gateway leaves \<open>create\<close> as well, and the failure envelope is returned.
\<close>

definition create_catch ::
  "error \<Rightarrow> PaymentIntent js_var \<Rightarrow> state \<Rightarrow> (error + CreateOrderResponse) \<times> state" where
  "create_catch e v st =
     (case v of
        Unassigned \<Rightarrow> (Inl (undefined_read ''status''), st)
      | Null \<Rightarrow> (Inl (null_read ''status''), st)
      | Assigned p \<Rightarrow>
          (case (if pi_status p = SUCCESS then refund (pi_id p) True (stripe st)
                 else cancelPaymentIntent (pi_id p) (stripe st)) of
             Inl e' \<Rightarrow> (Inl e', st)
           | Inr g \<Rightarrow>
               (Inr (CreateOrderResponse (fail_response e) (Some (client_secret p))),
                st\<lparr>stripe := g\<rparr>)))"

text \<open>The result of \<open>create\<close>: \<open>Inl\<close> is an error thrown to the caller.\<close>

definition orders_create ::
  "Config \<Rightarrow> Context \<Rightarrow> CreateOrderInput \<Rightarrow> state \<Rightarrow> (error + CreateOrderResponse) \<times> state" where
  "orders_create cfg ctx ord st =
     (case create_try cfg ctx ord st of
        Inr (newOrder, st') \<Rightarrow> (Inr (CreateOrderResponse (ok_response newOrder) None), st')
      | Inl (e, v) \<Rightarrow> create_catch e v st)"

section \<open>Asking for a payment: \<open>OrderDataSource.getPaymentIntent\<close>\<close>

definition msg_invalid_numSeats :: string where
  "msg_invalid_numSeats = ''Invalid input for `numSeats`, must be a positive non-zero number''"

definition msg_stripe_not_set_up :: string where
  "msg_stripe_not_set_up = ''Stripe account is not set up or charges are disabled''"

text \<open>
  \<open>getPaymentIntent\<close> up to its call of the gateway: the result is the
  \<open>paymentIntentData\<close> handed to \<open>createPaymentIntent\<close>, that is the destination
  account, the amount to charge and the application fee. Every error is thrown again as
  \<open>new Error(e.message)\<close>.
\<close>

definition getPaymentIntent_request ::
  "Config \<Rightarrow> ObjectID \<Rightarrow> int \<Rightarrow> state
    \<Rightarrow> error + string \<times> number \<times> number" where
  "getPaymentIntent_request cfg sid n st =
     (if \<not> truthy n \<or> n \<le> 0 then Inl (Error msg_invalid_numSeats)
      else case splits st sid of
        None \<Rightarrow> Inl (Error msg_split_not_found)
      | Some splitData \<Rightarrow>
          if placesLeft splitData < n then Inl (Error msg_too_many_seats)
          else
            (case users st (user splitData) of
               None \<Rightarrow> Inl (Error (message_of (null_read ''stripeAccountId'')))
             | Some splitOwner \<Rightarrow>
                 if stripeAccountId splitOwner = [] then Inl (Error msg_stripe_not_set_up)
                 else Inr (stripeAccountId splitOwner,
                           fst (orders_calcAmount cfg splitData n),
                           snd (orders_calcAmount cfg splitData n))))"

text \<open>The amount and the fee recorded on the Order that a response carries.\<close>

definition response_amounts ::
  "error + CreateOrderResponse \<Rightarrow> (number \<times> number) option" where
  "response_amounts r =
     (case r of
        Inl e \<Rightarrow> None
      | Inr resp \<Rightarrow>
          map_option (\<lambda>x. (amount (metadata x), feeAmount (metadata x)))
            (entity (envelope resp)))"

section \<open>Gateway events: \<open>updateOrderStatus\<close>\<close>

definition save_order :: "Order \<Rightarrow> state \<Rightarrow> state" where
  "save_order ord st =
     st\<lparr>orders := map (\<lambda>x. if order_id x = order_id ord then ord else x) (orders st)\<rparr>"

text \<open>
  One transaction: the status is mapped, an exitable state takes the client out of the
  Split, a promotable or demotable one changes the role, and the Order is saved. An error
  is thrown again as \<open>new Error(e.message)\<close>, with nothing of the transaction left.
\<close>

definition orders_updateOrderStatus :: "string \<Rightarrow> Order \<Rightarrow> state \<Rightarrow> (error + Order) \<times> state" where
  "orders_updateOrderStatus event_status ord st =
     (let ord1 = (case eventStatusMap event_status of
                    Some stat \<Rightarrow> ord\<lparr>order_status := stat\<rparr> | None \<Rightarrow> ord)
      in case (if Some event_status \<in> set exitableStatuses
               then splits_exit (order_split ord1) ord1 (client ord1)
                      (clientName (metadata ord1) @ [CHR 0x27] @ ''s order was cancelled'') st
               else Inr st) of
           Inl e \<Rightarrow> (Inl (Error (message_of e)), st)
         | Inr st1 \<Rightarrow>
             let st2 = (if Some event_status \<in> set promotableStatuses
                        then updateParticipantRole (order_split ord1) (client ord1) full st1
                        else st1);
                 st3 = (if Some event_status \<in> set demotableStatuses
                        then updateParticipantRole (order_split ord1) (client ord1) readonly st2
                        else st2)
             in (Inr ord1, save_order ord1 st3))"

definition msg_no_order :: string where
  "msg_no_order = ''No order exists for the paymentIntent provided''"

text \<open>The object of a gateway event: the id and the status of the payment intent.\<close>

record StripeEvent =
  event_type :: string
  data_id :: string
  data_status :: string

definition orders_updateOrderStatusByWebhook :: "StripeEvent \<Rightarrow> state \<Rightarrow> error option \<times> state" where
  "orders_updateOrderStatusByWebhook event st =
     (case find (\<lambda>x. paymentIntent x = data_id event) (orders st) of
        None \<Rightarrow> (Some (Error msg_no_order), st)
      | Some ord \<Rightarrow>
          (case orders_updateOrderStatus (data_status event) ord st of
             (Inl e, st') \<Rightarrow> (Some e, st')
           | (Inr ord', st') \<Rightarrow> (None, st')))"

definition driving_events :: "string list" where
  "driving_events =
     [''payment_intent.succeeded'', ''payment_intent.payment_failed'',
      ''payment_intent.canceled'', ''payment_intent.processing'']"

text \<open>
  \<open>updateStatusFromWebhook\<close>: the event is \<open>None\<close> when the signature check throws. The
  result is \<open>false\<close> after an error and \<open>undefined\<close> otherwise.
\<close>

definition orders_updateStatusFromWebhook :: "StripeEvent option \<Rightarrow> state \<Rightarrow> bool option \<times> state" where
  "orders_updateStatusFromWebhook verified st =
     (case verified of
        None \<Rightarrow> (Some False, st)
      | Some event \<Rightarrow>
          if event_type event \<in> set driving_events
          then (case orders_updateOrderStatusByWebhook event st of
                  (Some e, st') \<Rightarrow> (Some False, st')
                | (None, st') \<Rightarrow> (None, st'))
          else (None, st))"

section \<open>Sample data\<close>

definition alice :: ObjectID where "alice = 1"
definition bob :: ObjectID where "bob = 2"
definition carol :: ObjectID where "carol = 3"

definition sample_split :: Split where
  "sample_split =
     \<lparr>title = ''Coffee beans'', user = alice, numPlaces = 4, numSeats = 1, ownerSeats = 1,
      placesLeft = 3, price = 100, expirationDate = Some 1000, status = ACTIVE,
      cancelReason = None, conversation = Some 11\<rparr>"

definition sample_stripe :: Stripe where
  "sample_stripe =
     \<lparr>paymentIntents = Map.empty,
      paymentIntents_retrieve_error = (\<lambda>p. Error (''No such payment_intent: '' @ p)),
      accounts = [''acct_alice'' \<mapsto> True],
      refunds_create_error = (\<lambda>c. None), paymentIntents_cancel_error = (\<lambda>p. None),
      refunds = [], cancelled = []\<rparr>"

definition sample_users :: "ObjectID \<rightharpoonup> User" where
  "sample_users =
     [alice \<mapsto> \<lparr>fullname = ''Alice'', stripeAccountId = ''acct_alice''\<rparr>,
      bob \<mapsto> \<lparr>fullname = ''Bob'', stripeAccountId = ''acct_bob''\<rparr>,
      carol \<mapsto> \<lparr>fullname = ''Carol'', stripeAccountId = ''acct_carol''\<rparr>]"

definition sample_state :: state where
  "sample_state =
     \<lparr>splits = [10 \<mapsto> sample_split], orders = [], users = sample_users,
      conversations = [\<lparr>conv_id = 11, conv_split = 10, participants = [(alice, full)]\<rparr>],
      messages = [], stripe = sample_stripe, next_id = 20\<rparr>"

definition zero_input :: CreateSplitInput where
  "zero_input =
     \<lparr>in_title = ''Coffee beans'', in_numPlaces = 0, in_numSeats = 0, in_price = 100,
      in_expirationDate = None\<rparr>"

definition ctx_alice :: Context where "ctx_alice = \<lparr>ctx_id = alice, ctx_role = USER\<rparr>"
definition ctx_bob :: Context where "ctx_bob = \<lparr>ctx_id = bob, ctx_role = USER\<rparr>"

definition expired_split :: Split where
  "expired_split = sample_split\<lparr>status := EXPIRED\<rparr>"

definition expired_state :: state where
  "expired_state = sample_state\<lparr>splits := [10 \<mapsto> expired_split]\<rparr>"

text \<open>
  A Split with two seats taken by Bob's paid Order; Carol holds a payment intent that has
  not been paid yet.
\<close>

definition pi_bob :: PaymentIntent where
  "pi_bob =
     \<lparr>pi_id = ''pi_bob'', pi_status = ''succeeded'', payment_method = Some ''pm_bob'',
      client_secret = ''secret_bob'', charges = Some [''ch_bob'']\<rparr>"

definition pi_carol :: PaymentIntent where
  "pi_carol =
     \<lparr>pi_id = ''pi_carol'', pi_status = ''requires_payment_method'', payment_method = None,
      client_secret = ''secret_carol'', charges = None\<rparr>"

definition order_bob :: Order where
  "order_bob =
     \<lparr>order_id = 12, client = bob, owner = alice, order_split = 10, order_status = PAID,
      order_numSeats = 2, paymentIntent = ''pi_bob'', shippingAddress = 7,
      paymentMethod = ''pm_bob'',
      metadata = \<lparr>clientName = ''Bob'', ownerName = ''Alice'', splitTitle = ''Coffee beans'',
                  amount = Finite 6250, feeAmount = Finite 1250\<rparr>\<rparr>"

definition busy_split :: Split where
  "busy_split = sample_split\<lparr>numSeats := 3, placesLeft := 1\<rparr>"

definition busy_stripe :: Stripe where
  "busy_stripe =
     sample_stripe\<lparr>paymentIntents := [''pi_bob'' \<mapsto> pi_bob, ''pi_carol'' \<mapsto> pi_carol]\<rparr>"

definition busy_state :: state where
  "busy_state =
     \<lparr>splits = [10 \<mapsto> busy_split], orders = [order_bob], users = sample_users,
      conversations =
        [\<lparr>conv_id = 11, conv_split = 10, participants = [(alice, full), (bob, full)]\<rparr>],
      messages = [], stripe = busy_stripe, next_id = 20\<rparr>"

definition ctx_carol :: Context where "ctx_carol = \<lparr>ctx_id = carol, ctx_role = USER\<rparr>"

text \<open>Bob asks for a second Order on the same Split; Carol reuses Bob's payment intent.\<close>

definition bob_again :: CreateOrderInput where
  "bob_again =
     \<lparr>req_split = 10, req_numSeats = 1, req_shippingAddress = 7,
      req_paymentIntent = ''pi_carol''\<rparr>"

definition carol_reuses :: CreateOrderInput where
  "carol_reuses =
     \<lparr>req_split = 10, req_numSeats = 1, req_shippingAddress = 8,
      req_paymentIntent = ''pi_bob''\<rparr>"

definition carol_one_seat :: CreateOrderInput where
  "carol_one_seat =
     \<lparr>req_split = 10, req_numSeats = 1, req_shippingAddress = 8,
      req_paymentIntent = ''pi_carol''\<rparr>"

text \<open>
  Carol has cancelled an earlier Order on the Split, and the gateway answers a second
  refund of her charge with "already fully reversed".
\<close>

definition pi_carol_old :: PaymentIntent where
  "pi_carol_old =
     \<lparr>pi_id = ''pi_carol_old'', pi_status = ''succeeded'', payment_method = Some ''pm_carol'',
      client_secret = ''secret_carol_old'', charges = Some [''ch_carol'']\<rparr>"

definition order_carol :: Order where
  "order_carol =
     \<lparr>order_id = 13, client = carol, owner = alice, order_split = 10,
      order_status = CLIENT_CANCELED, order_numSeats = 1, paymentIntent = ''pi_carol_old'',
      shippingAddress = 8, paymentMethod = ''pm_carol'',
      metadata = \<lparr>clientName = ''Carol'', ownerName = ''Alice'', splitTitle = ''Coffee beans'',
                  amount = Finite 3125, feeAmount = Finite 625\<rparr>\<rparr>"

definition reversed_stripe :: Stripe where
  "reversed_stripe =
     busy_stripe
       \<lparr>paymentIntents :=
          [''pi_bob'' \<mapsto> pi_bob, ''pi_carol'' \<mapsto> pi_carol, ''pi_carol_old'' \<mapsto> pi_carol_old],
        refunds_create_error :=
          (\<lambda>c. if c = ''ch_carol''
               then Some (Error ''Transfer tr_carol is already fully reversed'') else None)\<rparr>"

definition two_orders_state :: state where
  "two_orders_state = busy_state\<lparr>orders := [order_bob, order_carol], stripe := reversed_stripe\<rparr>"




text \<open>
  A fee of a quarter, and a Split of five places priced 23 with one seat taken by its
  owner.
\<close>

definition quarter_fee :: Config where
  "quarter_fee = \<lparr>SYSTEM_FEE = Finite (1 / 4)\<rparr>"

definition tea_split :: Split where
  "tea_split =
     \<lparr>title = ''Green tea'', user = alice, numPlaces = 5, numSeats = 1, ownerSeats = 1,
      placesLeft = 4, price = 23, expirationDate = Some 1000, status = ACTIVE,
      cancelReason = None, conversation = Some 11\<rparr>"

definition tea_state :: state where
  "tea_state =
     \<lparr>splits = [10 \<mapsto> tea_split], orders = [], users = sample_users,
      conversations = [\<lparr>conv_id = 11, conv_split = 10, participants = [(alice, full)]\<rparr>],
      messages = [], stripe = busy_stripe, next_id = 20\<rparr>"

section \<open>Properties of the seat accounting\<close>

lemma create_establishes_balance:
  "splits_create ctx split st = (r, st') \<Longrightarrow> success r \<Longrightarrow>
     \<exists>s. entity r = Some s \<and> splits st' (next_id st) = Some s \<and> seats_balanced s
        \<and> placesLeft s = numPlaces s - numSeats s \<and> status s = ACTIVE"
  by (auto simp: splits_create_def fail_response_def ok_response_def Let_def new_split_def
        seats_balanced_def or_zero_def truthy_def sendSystemMessage_def
      split: if_splits option.splits sum.splits)

lemma inc_seats_balanced: "seats_balanced (inc_seats n s) = seats_balanced s"
  by (simp add: seats_balanced_def inc_seats_def)

lemma increment_preserves_balance:
  "splits_incrementNumSeats sid n st = Inr st' \<Longrightarrow> splits st sid = Some s \<Longrightarrow>
   seats_balanced s \<Longrightarrow> \<exists>s'. splits st' sid = Some s' \<and> seats_balanced s'"
  by (auto simp: splits_incrementNumSeats_def Let_def sendSystemMessage_def seats_balanced_def
        inc_seats_def
      split: if_splits option.splits)

lemma update_preserves_balance_when_truthy:
  "splits_updateSplit ctx sid split st = (r, st') \<Longrightarrow> success r \<Longrightarrow>
   in_numPlaces split \<noteq> 0 \<or> in_numSeats split \<noteq> 0 \<Longrightarrow>
     \<exists>s'. splits st' sid = Some s' \<and> seats_balanced s'"
  by (auto simp: splits_updateSplit_def Let_def sendSystemMessage_def seats_balanced_def
        apply_update_def fail_response_def ok_response_def or_zero_def truthy_def
      split: if_splits option.splits)

text \<open>
  C1. The seat equation \<open>numSeats + placesLeft = numPlaces\<close> is established by creation and
  kept by every seat mutation (the three lemmas above), and \<open>updateSplit\<close> keeps it whenever
  \<open>numPlaces\<close> or \<open>numSeats\<close> of the input is not zero. With both zero, the guard
  \<open>split.numPlaces || split.numSeats\<close> is falsy, \<open>placesLeft\<close> is not recomputed and the
  stored counters are overwritten all the same: the owner's update of a balanced Split
  (4 places, 1 seat, 3 left) succeeds and leaves 0 places, 0 seats and 3 places left.
\<close>

theorem update_zero_breaks_seat_equation:
  "seats_balanced sample_split \<and> splits sample_state 10 = Some sample_split \<and>
   (case splits_updateSplit ctx_alice 10 zero_input sample_state of
      (r, st') \<Rightarrow> success r \<and>
        (case splits st' 10 of
           None \<Rightarrow> False
         | Some s' \<Rightarrow> \<not> seats_balanced s' \<and> numPlaces s' = 0 \<and> numSeats s' = 0
                       \<and> placesLeft s' = 3))"
  by (simp add: splits_updateSplit_def Let_def sendSystemMessage_def seats_balanced_def
        apply_update_def fail_response_def ok_response_def or_zero_def truthy_def
        sample_state_def sample_split_def zero_input_def ctx_alice_def alice_def)

text \<open>
  C2. On a stored Split, \<open>incrementNumSeats\<close> with any delta \<open>n\<close> succeeds, adds \<open>n\<close> to
  \<open>numSeats\<close> and takes it from \<open>placesLeft\<close>. If the Split was \<open>ACTIVE\<close> and the new
  \<open>placesLeft\<close> is at most zero, the status becomes \<open>COMPLETE\<close> and one "split completed"
  system message is sent; if it was \<open>COMPLETE\<close> and the new \<open>placesLeft\<close> is positive, the
  status goes back to \<open>ACTIVE\<close> and one "split reset" message is sent; in every other case
  the status stays and no message is sent.
\<close>

theorem incrementNumSeats_transitions:
  assumes "splits st sid = Some s"
  shows "\<exists>st' s'. splits_incrementNumSeats sid n st = Inr st' \<and> splits st' sid = Some s'
     \<and> numSeats s' = numSeats s + n \<and> placesLeft s' = placesLeft s - n
     \<and> (if status s = ACTIVE \<and> placesLeft s - n \<le> 0
        then status s' = COMPLETE
           \<and> messages st' = messages st @
               [\<lparr>sm_conversation = conversation s, sm_message = msg_split_completed,
                 messageType = SPLIT_COMPLETED, action = Some RATE_SPLIT\<rparr>]
        else if status s = COMPLETE \<and> placesLeft s - n > 0
        then status s' = ACTIVE
           \<and> messages st' = messages st @
               [\<lparr>sm_conversation = conversation s, sm_message = msg_split_reset,
                 messageType = SPLIT_RESET, action = Some OPEN_CONVERSATION\<rparr>]
        else status s' = status s \<and> messages st' = messages st)"
  using assms
  by (simp add: splits_incrementNumSeats_def Let_def sendSystemMessage_def inc_seats_def)

theorem incrementNumSeats_transitions_witness:
  "splits sample_state 10 = Some sample_split \<and>
   (\<exists>st' s'. splits_incrementNumSeats 10 3 sample_state = Inr st' \<and> splits st' 10 = Some s'
      \<and> numSeats s' = 4 \<and> placesLeft s' = 0 \<and> status s' = COMPLETE
      \<and> map messageType (messages st') = [SPLIT_COMPLETED])"
proof -
  have h: "splits sample_state 10 = Some sample_split"
    by (simp add: sample_state_def)
  show ?thesis
    using incrementNumSeats_transitions [OF h, of 3] h
    by (auto simp: sample_split_def sample_state_def)
qed

section \<open>Properties of the Split cancellation\<close>

text \<open>
  C3. On a stored Split, \<open>cancelAction\<close> first looks at the status: when it is \<open>COMPLETE\<close>,
  \<open>EXPIRED\<close> or \<open>CANCELLED\<close>, the call returns the failure envelope with the
  already-terminal message and the state as it was, whoever calls. When the Split is not
  terminal and the caller is neither its owner nor an administrator, the call returns the
  failure envelope with the only-owner message and the state as it was. The state covers
  the Splits, the Orders, the Conversations, the messages and the gateway.
\<close>

theorem cancelAction_rejections:
  assumes "splits st sid = Some s"
  shows "(terminal (status s) \<longrightarrow>
            splits_cancelAction ctx sid reason st =
              (fail_response (Error msg_already_terminal), st))
       \<and> (\<not> terminal (status s) \<and> user s \<noteq> ctx_id ctx \<and> ctx_role ctx \<noteq> ADMIN \<longrightarrow>
            splits_cancelAction ctx sid reason st =
              (fail_response (Error msg_only_owner), st))"
  using assms by (simp add: splits_cancelAction_def)

theorem cancelAction_rejections_witness:
  "splits expired_state 10 = Some expired_split \<and> terminal (status expired_split)
   \<and> splits_cancelAction ctx_alice 10 None expired_state =
       (fail_response (Error msg_already_terminal), expired_state)
   \<and> splits sample_state 10 = Some sample_split \<and> \<not> terminal (status sample_split)
   \<and> user sample_split \<noteq> ctx_id ctx_bob \<and> ctx_role ctx_bob \<noteq> ADMIN
   \<and> splits_cancelAction ctx_bob 10 None sample_state =
       (fail_response (Error msg_only_owner), sample_state)"
proof -
  have h1: "splits expired_state 10 = Some expired_split"
    by (simp add: expired_state_def)
  have h2: "splits sample_state 10 = Some sample_split"
    by (simp add: sample_state_def)
  have t: "terminal (status expired_split)" "\<not> terminal (status sample_split)"
      "user sample_split \<noteq> ctx_id ctx_bob" "ctx_role ctx_bob \<noteq> ADMIN"
    by (simp_all add: terminal_def expired_split_def sample_split_def ctx_bob_def alice_def
        bob_def)
  show ?thesis
    using cancelAction_rejections [OF h1, of ctx_alice None]
      cancelAction_rejections [OF h2, of ctx_bob None] h1 h2 t
    by simp
qed

text \<open>
  A caller who is neither owner nor administrator, on a Split that is already terminal,
  gets the already-terminal failure and not the only-owner one.
\<close>

theorem cancelAction_stranger_on_terminal:
  "splits expired_state 10 = Some expired_split \<and> terminal (status expired_split)
   \<and> user expired_split \<noteq> ctx_id ctx_bob \<and> ctx_role ctx_bob \<noteq> ADMIN
   \<and> message (fst (splits_cancelAction ctx_bob 10 None expired_state))
       = Some msg_already_terminal
   \<and> message (fst (splits_cancelAction ctx_bob 10 None expired_state)) \<noteq> Some msg_only_owner"
  by (simp add: splits_cancelAction_def expired_state_def expired_split_def sample_split_def
      ctx_bob_def alice_def bob_def terminal_def fail_response_def msg_already_terminal_def
      msg_only_owner_def)

lemma toExpire_iff:
  "\<exists>xs. toExpire now st = Query xs
     \<and> (\<forall>sid. sid \<in> set xs \<longleftrightarrow>
           sid < next_id st
           \<and> (\<exists>s d. splits st sid = Some s \<and> expirationDate s = Some d \<and> d \<le> now))"
  by (auto simp: toExpire_def split: option.splits)

lemma splits_expire_unchanged: "splits_expire now dry st = st"
  by (simp add: splits_expire_def allSettled_map_def toExpire_def)

text \<open>
  C4. The query of the sweep matches the Splits whose expiration date has passed
  (\<open>toExpire_iff\<close>), but \<open>expire\<close> does not wait for it: what it maps over is the query
  itself, \<open>Promise.allSettled\<close> rejects, the \<open>catch\<close> block logs the error, and \<open>cancel\<close>
  is called on no Split (\<open>splits_expire_unchanged\<close>). An \<open>ACTIVE\<close> Split whose expiration
  date, 1000, has passed at the time of the sweep, 2000, is matched by the query and is
  left as it was, with every other part of the state, although \<open>cancel\<close> with \<open>EXPIRED\<close>
  would succeed on it.
\<close>

theorem expire_cancels_nothing:
  "splits sample_state 10 = Some sample_split \<and> status sample_split = ACTIVE
   \<and> expirationDate sample_split = Some 1000
   \<and> toExpire 2000 sample_state = Query [10]
   \<and> splits_expire 2000 False sample_state = sample_state
   \<and> map_option status (splits (splits_expire 2000 False sample_state) 10) = Some ACTIVE
   \<and> map_option status (splits (snd (splits_cancel 10 None EXPIRED sample_state)) 10)
       = Some EXPIRED"
proof -
  have a: "splits sample_state 10 = Some sample_split" "status sample_split = ACTIVE"
      "expirationDate sample_split = Some 1000"
    by (simp_all add: sample_state_def sample_split_def)
  have b: "toExpire 2000 sample_state = Query [10]"
    by code_simp
  have c: "splits_expire 2000 False sample_state = sample_state"
    by (simp add: splits_expire_def allSettled_map_def toExpire_def)
  have d: "map_option status (splits (snd (splits_cancel 10 None EXPIRED sample_state)) 10)
       = Some EXPIRED"
    by code_simp
  show ?thesis
    unfolding c using a b d by simp
qed

section \<open>Properties of the Order creation\<close>

lemma create_catch_keeps:
  "orders (snd (create_catch e v st)) = orders st \<and> splits (snd (create_catch e v st)) = splits st
   \<and> conversations (snd (create_catch e v st)) = conversations st
   \<and> messages (snd (create_catch e v st)) = messages st"
  by (auto simp: create_catch_def split: js_var.splits sum.splits if_splits)

lemma create_catch_fails:
  "fst (create_catch e v st) = Inr resp \<Longrightarrow> envelope resp = fail_response e"
  by (auto simp: create_catch_def split: js_var.splits sum.splits if_splits)

lemma existingOrder_iff:
  "existingOrder ctx ord st \<noteq> None \<longleftrightarrow>
     (\<exists>x\<in>set (orders st). paymentIntent x = req_paymentIntent ord
        \<or> (order_split x = req_split ord \<and> client x = ctx_id ctx
           \<and> order_status x \<notin> {SYSTEM_CANCELED, OWNER_CANCELED, CLIENT_CANCELED}))"
  by (auto simp: existingOrder_def find_None_iff cancelled_statuses_def)

lemma create_capacity_rejected:
  assumes "existingOrder ctx ord st = None"
    and "getPaymentIntent (stripe st) (req_paymentIntent ord) = Some p"
    and "splits st (req_split ord) = Some s" and "placesLeft s < req_numSeats ord"
  shows "create_try cfg ctx ord st = Inl (Error msg_too_many_seats, Assigned p)
     \<and> orders (snd (orders_create cfg ctx ord st)) = orders st
     \<and> splits (snd (orders_create cfg ctx ord st)) = splits st
     \<and> (\<forall>resp. fst (orders_create cfg ctx ord st) = Inr resp \<longrightarrow>
           envelope resp = fail_response (Error msg_too_many_seats))"
proof -
  have t: "create_try cfg ctx ord st = Inl (Error msg_too_many_seats, Assigned p)"
    using assms by (simp add: create_try_def create_checked_def)
  then have c: "orders_create cfg ctx ord st
      = create_catch (Error msg_too_many_seats) (Assigned p) st"
    by (simp add: orders_create_def)
  show ?thesis
    unfolding c using t create_catch_keeps [of "Error msg_too_many_seats" "Assigned p" st]
    by (auto dest: create_catch_fails)
qed

text \<open>
  C5. When an Order already holds the payment intent supplied, or the caller already has an
  Order on the Split that is not cancelled, the duplicate check of \<open>create\<close> throws its
  error before the payment intent is retrieved; the \<open>catch\<close> block then reads the status
  of the unassigned variable, and what leaves \<open>create\<close> is that \<open>TypeError\<close>, not the
  duplicate rejection and not a failure envelope. The state is left as it was. (The
  capacity check, which comes after the retrieval, is reported: \<open>create_capacity_rejected\<close>.)
\<close>

theorem create_duplicate_not_reported:
  assumes "x \<in> set (orders st)"
    and "paymentIntent x = req_paymentIntent ord
         \<or> (order_split x = req_split ord \<and> client x = ctx_id ctx
            \<and> order_status x \<noteq> SYSTEM_CANCELED \<and> order_status x \<noteq> OWNER_CANCELED
            \<and> order_status x \<noteq> CLIENT_CANCELED)"
  shows "create_try cfg ctx ord st = Inl (Error msg_duplicate, Unassigned)
     \<and> orders_create cfg ctx ord st = (Inl (undefined_read ''status''), st)
     \<and> undefined_read ''status'' \<noteq> Error msg_duplicate"
proof -
  have "existingOrder ctx ord st \<noteq> None"
    unfolding existingOrder_iff using assms by auto
  then have t: "create_try cfg ctx ord st = Inl (Error msg_duplicate, Unassigned)"
    by (auto simp: create_try_def)
  then show ?thesis
    by (simp add: orders_create_def create_catch_def undefined_read_def)
qed

theorem create_duplicate_not_reported_witness:
  "order_bob \<in> set (orders busy_state)
   \<and> order_split order_bob = req_split bob_again \<and> client order_bob = ctx_id ctx_bob
   \<and> order_status order_bob = PAID
   \<and> paymentIntent order_bob \<noteq> req_paymentIntent bob_again
   \<and> orders_create quarter_fee ctx_bob bob_again busy_state
       = (Inl (undefined_read ''status''), busy_state)"
proof -
  have h: "order_bob \<in> set (orders busy_state)"
      "order_split order_bob = req_split bob_again" "client order_bob = ctx_id ctx_bob"
      "order_status order_bob = PAID" "paymentIntent order_bob \<noteq> req_paymentIntent bob_again"
    by (simp_all add: busy_state_def order_bob_def bob_again_def ctx_bob_def)
  show ?thesis
    using create_duplicate_not_reported [of order_bob busy_state bob_again ctx_bob quarter_fee] h
    by simp
qed

text \<open>
  C6. A failure of \<open>create\<close> before the payment intent is retrieved is not compensated and
  is not returned as an envelope: Carol supplies the payment intent that Bob's Order
  holds, which the gateway reports as succeeded; the duplicate check throws, the
  \<open>catch\<close> block reads the status of the variable that is still unassigned, and
  \<open>create\<close> throws a \<open>TypeError\<close>. The gateway is left as it was: no refund, no
  cancellation.
\<close>

theorem create_duplicate_throws_uncompensated:
  "paymentIntents (stripe busy_state) (req_paymentIntent carol_reuses) = Some pi_bob
   \<and> pi_status pi_bob = SUCCESS
   \<and> create_try cfg ctx_carol carol_reuses busy_state
       = Inl (Error msg_duplicate, Unassigned)
   \<and> orders_create cfg ctx_carol carol_reuses busy_state
       = (Inl (undefined_read ''status''), busy_state)
   \<and> refunds (stripe busy_state) = [] \<and> cancelled (stripe busy_state) = []"
  by (simp add: create_try_def orders_create_def create_catch_def existingOrder_def
      busy_state_def order_bob_def carol_reuses_def ctx_carol_def cancelled_statuses_def
      busy_stripe_def sample_stripe_def pi_bob_def SUCCESS_def)

section \<open>Properties of the bulk cancellation\<close>


lemma refund_log_entry_refunds [simp]:
  "refund_log_entry (g\<lparr>refunds := l\<rparr>) x = refund_log_entry g x"
  by (simp add: refund_log_entry_def split: option.splits list.splits)

lemma refund_tolerated_refunds [simp]:
  "refund_tolerated (g\<lparr>refunds := l\<rparr>) x = refund_tolerated g x"
  by (simp add: refund_tolerated_def split: option.splits list.splits)




lemma set_status_of_split_iff:
  assumes "x \<in> set (set_status_of_split sid stat xs)" and "order_split x = sid"
  shows "order_status x = stat"
proof -
  from assms(1) obtain y where y: "y \<in> set xs"
      and x: "x = (if order_split y = sid then y\<lparr>order_status := stat\<rparr> else y)"
    unfolding set_status_of_split_def by (elim imageE [OF _ ] | simp only: set_map)+
  show ?thesis
  proof (cases "order_split y = sid")
    case True
    then have "x = y\<lparr>order_status := stat\<rparr>" unfolding x by (simp only: simp_thms if_True)
    then show ?thesis by simp
  next
    case False
    then have "x = y" unfolding x by (simp only: simp_thms if_False)
    with False assms(2) show ?thesis by simp
  qed
qed

lemma set_status_of_split_ids:
  "map order_id (set_status_of_split sid stat xs) = map order_id xs"
  by (induction xs) (simp_all add: set_status_of_split_def)

lemma bulkCancel_unfold:
  "refund_all (filter (\<lambda>x. order_split x = sid) (orders st)) (stripe st) = (r0, g) \<Longrightarrow>
   orders_bulkCancel sid stat True st =
     (r0, if r0 = None then st\<lparr>stripe := g, orders := set_status_of_split sid stat (orders st)\<rparr>
          else st\<lparr>stripe := g\<rparr>)"
  by (cases r0) (simp_all add: orders_bulkCancel_def)

lemma bulkCancel_orders:
  assumes "orders_bulkCancel sid stat True st = (None, st1)"
  shows "orders st1 = set_status_of_split sid stat (orders st)"
proof -
  let ?xs = "filter (\<lambda>x. order_split x = sid) (orders st)"
  obtain r0 g where ra: "refund_all ?xs (stripe st) = (r0, g)"
    by (cases "refund_all ?xs (stripe st)")
  let ?X = "if r0 = None
            then st\<lparr>stripe := g, orders := set_status_of_split sid stat (orders st)\<rparr>
            else st\<lparr>stripe := g\<rparr>"
  have "(None, st1) = (r0, ?X)"
    using assms bulkCancel_unfold [OF ra, of stat] by (rule trans [OF sym])
  then have r: "None = r0" and st1: "st1 = ?X"
    by (simp_all only: prod.inject)
  show ?thesis
    using r by (simp add: st1)
qed




text \<open>
  C10. When \<open>cancel\<close> succeeds on a Split, with whatever status it was given, every
  Order of that Split has the status \<open>OWNER_CANCELED\<close> afterwards, whatever its status
  was before; the Orders are the same documents with this one field rewritten, and the
  Split has the status given.
\<close>

theorem cancel_marks_every_order:
  assumes "splits_cancel sid reason stat st = (Inr s', st')"
  shows "(\<forall>x\<in>set (orders st'). order_split x = sid \<longrightarrow> order_status x = OWNER_CANCELED)
    \<and> orders st' = set_status_of_split sid OWNER_CANCELED (orders st)
    \<and> map order_id (orders st') = map order_id (orders st)
    \<and> splits st' sid = Some s' \<and> status s' = stat"
proof -
  obtain r st1 where b: "orders_bulkCancel sid OWNER_CANCELED True st = (r, st1)"
    by (cases "orders_bulkCancel sid OWNER_CANCELED True st")
  from assms b have r: "r = None"
    by (auto simp: splits_cancel_def split: option.splits)
  have o: "orders st1 = set_status_of_split sid OWNER_CANCELED (orders st)"
    using b unfolding r by (rule bulkCancel_orders)
  from assms b r have "orders st' = orders st1 \<and> splits st' sid = Some s' \<and> status s' = stat"
    by (auto simp: splits_cancel_def Let_def makeReadonly_def sendSystemMessage_def
        split: option.splits)
  with o show ?thesis
    by (auto simp: set_status_of_split_ids dest: set_status_of_split_iff)
qed

theorem cancel_marks_every_order_witness:
  "\<exists>s' st'. splits_cancel 10 None EXPIRED two_orders_state = (Inr s', st')
     \<and> map order_status (orders two_orders_state) = [PAID, CLIENT_CANCELED]
     \<and> (\<forall>x\<in>set (orders st'). order_split x = 10 \<longrightarrow> order_status x = OWNER_CANCELED)
     \<and> map order_id (orders st') = [12, 13] \<and> status s' = EXPIRED"
proof -
  obtain r st' where e: "splits_cancel 10 None EXPIRED two_orders_state = (r, st')"
    by (cases "splits_cancel 10 None EXPIRED two_orders_state")
  have "case fst (splits_cancel 10 None EXPIRED two_orders_state) of Inr s \<Rightarrow> True | Inl e \<Rightarrow> False"
    by code_simp
  with e obtain s' where r: "r = Inr s'" by (cases r) auto
  have o: "map order_status (orders two_orders_state) = [PAID, CLIENT_CANCELED]"
      "map order_id (orders two_orders_state) = [12, 13]"
    by (simp_all add: two_orders_state_def order_bob_def order_carol_def)
  from cancel_marks_every_order [OF e [unfolded r]]
  have t: "\<forall>x\<in>set (orders st'). order_split x = 10 \<longrightarrow> order_status x = OWNER_CANCELED"
      "map order_id (orders st') = map order_id (orders two_orders_state)"
      "status s' = EXPIRED"
    by blast+
  from e r have "splits_cancel 10 None EXPIRED two_orders_state = (Inr s', st')" by simp
  with t o show ?thesis by (intro exI conjI) simp_all
qed

section \<open>Properties of the gateway events\<close>














section \<open>Properties of the amounts\<close>

text \<open>
  The numbers at work: a tenth is not a double; \<open>parseInt\<close> reads one digit of a number
  that is written with an exponent; without places the amounts are not numbers.
\<close>

lemma round_double_tenth:
  "round_double (1 / 10) = Finite (3602879701896397 / 36028797018963968)"
  by code_simp

lemma parseInt_exponent_notation:
  "parseInt (Finite (125 * 10 ^ 19)) = Finite 1"
  "parseInt (round_double (5 / 10 ^ 7)) = Finite 5"
  by code_simp+

lemma calcAmount_without_places:
  "orders_calcAmount quarter_fee (tea_split\<lparr>numPlaces := 0\<rparr>) 1 = (NaN, NaN)"
  "orders_calcAmount quarter_fee (tea_split\<lparr>price := 0, numPlaces := 0\<rparr>) 1 = (NaN, NaN)"
  by code_simp+

lemma incrementNumSeats_orders:
  "splits_incrementNumSeats sid n st = Inr st' \<Longrightarrow> orders st' = orders st"
  by (auto simp: splits_incrementNumSeats_def Let_def sendSystemMessage_def
      split: option.splits if_splits)

lemma join_orders:
  assumes "splits_join sid x cl u role st = Inr st'"
  shows "orders st' = orders st"
proof (cases "conversation_of st sid")
  case None
  with assms show ?thesis by (simp add: splits_join_def)
next
  case (Some c)
  show ?thesis
  proof (cases "splits_incrementNumSeats sid (order_numSeats x) st")
    case (Inl e)
    with assms Some show ?thesis by (simp add: splits_join_def split: if_splits)
  next
    case (Inr st1)
    with assms Some have "orders st' = orders st1"
      by (auto simp: splits_join_def conversations_join_def update_conversation_def
          sendSystemMessage_def split: if_splits)
    with Inr show ?thesis by (simp add: incrementNumSeats_orders)
  qed
qed

lemma create_transaction_orders:
  "create_transaction newOrder u p st = Inr st' \<Longrightarrow> orders st' = orders st @ [newOrder]"
  unfolding create_transaction_def by (drule join_orders) simp

lemma create_checked_Inr:
  assumes "create_checked cfg ctx ord p st = Inr (newOrder, st')"
  shows "\<exists>s. splits st (req_split ord) = Some s
     \<and> amount (metadata newOrder) = fst (orders_calcAmount cfg s (req_numSeats ord))
     \<and> feeAmount (metadata newOrder) = snd (orders_calcAmount cfg s (req_numSeats ord))
     \<and> orders st' = orders st @ [newOrder]"
proof -
  from assms obtain s cl ow where s: "splits st (req_split ord) = Some s"
      and n: "newOrder = build_order cfg ord (next_id st) p s (ctx_id ctx) cl ow"
      and t: "create_transaction newOrder cl p st = Inr st'"
    by (auto simp: create_checked_def Let_def split: option.splits if_splits sum.splits)
  have "amount (metadata newOrder) = fst (orders_calcAmount cfg s (req_numSeats ord))"
      "feeAmount (metadata newOrder) = snd (orders_calcAmount cfg s (req_numSeats ord))"
    unfolding n by (simp_all add: build_order_def)
  with s create_transaction_orders [OF t] show ?thesis by blast
qed

lemma create_success:
  assumes "orders_create cfg ctx ord st = (Inr resp, st')" and "success (envelope resp)"
  shows "\<exists>newOrder. create_try cfg ctx ord st = Inr (newOrder, st')
     \<and> envelope resp = ok_response newOrder"
proof (cases "create_try cfg ctx ord st")
  case (Inl a)
  obtain e v where a: "a = (e, v)" by (cases a)
  from assms(1) Inl a have "create_catch e v st = (Inr resp, st')"
    by (simp add: orders_create_def)
  then have "envelope resp = fail_response e"
    by (auto simp: create_catch_def split: js_var.splits sum.splits if_splits)
  with assms(2) show ?thesis by (simp add: fail_response_def)
next
  case (Inr b)
  obtain newOrder st1 where b: "b = (newOrder, st1)" by (cases b)
  from assms(1) Inr b have "resp = CreateOrderResponse (ok_response newOrder) None" "st' = st1"
    by (simp_all add: orders_create_def)
  with Inr b show ?thesis by simp
qed

lemma create_try_Inr:
  "create_try cfg ctx ord st = Inr r \<Longrightarrow>
     \<exists>p. getPaymentIntent (stripe st) (req_paymentIntent ord) = Some p
        \<and> create_checked cfg ctx ord p st = Inr r"
  by (auto simp: create_try_def split: option.splits sum.splits)

lemma create_records_calcAmount:
  assumes "orders_create cfg ctx ord st = (Inr resp, st')" and "success (envelope resp)"
  shows "\<exists>newOrder s. entity (envelope resp) = Some newOrder \<and> newOrder \<in> set (orders st')
     \<and> splits st (req_split ord) = Some s
     \<and> (amount (metadata newOrder), feeAmount (metadata newOrder))
         = orders_calcAmount cfg s (req_numSeats ord)"
proof -
  from create_success [OF assms] obtain newOrder
    where t: "create_try cfg ctx ord st = Inr (newOrder, st')"
      and e: "envelope resp = ok_response newOrder"
    by blast
  from create_try_Inr [OF t] obtain p
    where "create_checked cfg ctx ord p st = Inr (newOrder, st')"
    by blast
  from create_checked_Inr [OF this] obtain s where s: "splits st (req_split ord) = Some s"
      "amount (metadata newOrder) = fst (orders_calcAmount cfg s (req_numSeats ord))"
      "feeAmount (metadata newOrder) = snd (orders_calcAmount cfg s (req_numSeats ord))"
      "orders st' = orders st @ [newOrder]"
    by blast
  have "entity (envelope resp) = Some newOrder" "newOrder \<in> set (orders st')"
    using e s(4) by (simp_all add: ok_response_def)
  with s(1-3) show ?thesis
    by (intro exI [of _ newOrder] exI [of _ s]) simp
qed

lemma getPaymentIntent_requests_calcAmount:
  assumes "getPaymentIntent_request cfg sid n st = Inr (dest, a, f)"
  shows "\<exists>s. splits st sid = Some s \<and> (a, f) = orders_calcAmount cfg s n"
proof (cases "splits st sid")
  case None
  with assms show ?thesis
    by (simp add: getPaymentIntent_request_def split: if_splits)
next
  case (Some s)
  show ?thesis
  proof (cases "users st (user s)")
    case None
    with assms Some show ?thesis
      by (simp add: getPaymentIntent_request_def split: if_splits)
  next
    case (Some u)
    with assms \<open>splits st sid = Some s\<close> show ?thesis
      by (simp add: getPaymentIntent_request_def split: if_splits)
  qed
qed

text \<open>
  C9. The amounts that a successful \<open>createOrder\<close> records and that \<open>getPaymentIntent\<close>
  asks the gateway to charge are those of \<open>calcAmount\<close> (\<open>create_records_calcAmount\<close>,
  \<open>getPaymentIntent_requests_calcAmount\<close>), and \<open>calcAmount\<close> does not round to cents:
  it rounds the share and the fee to two decimals and then cuts the product with 100
  with \<open>parseInt\<close>. One seat of a Split of five places priced 23, with a fee of a
  quarter: the share is 4.60 and the fee 1.15, that is 460 and 115 cents. The double
  nearest to 1.15, times 100, is a double below 115, and the fee amount recorded and
  requested is 114. The amount is 575, the share with the fee. Three seats of a Split of
  four places priced 10: the share is 7.50, the fee 1.88, and the amount is 937.
\<close>

theorem calcAmount_cuts_a_cent:
  "splits tea_state 10 = Some tea_split \<and> price tea_split = 23 \<and> numPlaces tea_split = 5
   \<and> req_split carol_one_seat = 10 \<and> req_numSeats carol_one_seat = 1
   \<and> SYSTEM_FEE quarter_fee = Finite (1 / 4)
   \<and> price tea_split / of_int (numPlaces tea_split) * of_int (req_numSeats carol_one_seat) * 100
       = 460
   \<and> 1 / 4 * (price tea_split / of_int (numPlaces tea_split)
               * of_int (req_numSeats carol_one_seat) * 100) = 115
   \<and> parseFloat_toFixed2 (js_times (round_double (460 / 100)) (Finite (1 / 4)))
       = round_double (115 / 100)
   \<and> parseInt (js_times (round_double (115 / 100)) (Finite 100)) = Finite 114
   \<and> orders_calcAmount quarter_fee tea_split 1 = (Finite 575, Finite 114)
   \<and> response_amounts (fst (orders_create quarter_fee ctx_carol carol_one_seat tea_state))
       = Some (Finite 575, Finite 114)
   \<and> getPaymentIntent_request quarter_fee 10 1 tea_state
       = Inr (''acct_alice'', Finite 575, Finite 114)
   \<and> orders_calcAmount quarter_fee (tea_split\<lparr>price := 10, numPlaces := 4\<rparr>) 3
       = (Finite 937, Finite 188)"
proof -
  let ?A = "2589569785738035 / 562949953421312 :: rat"
  let ?B = "2589569785738035 / 2251799813685248 :: rat"
  let ?C = "8092405580431359 / 70368744177664 :: rat"
  let ?F = "2116691824864133 / 1125899906842624 :: rat"
  let ?S = "2640235281545953 / 281474976710656 :: rat"
  let ?T = "8250735254831103 / 8796093022208 :: rat"
  have a: "splits tea_state 10 = Some tea_split" "price tea_split = 23"
      "numPlaces tea_split = 5" "req_split carol_one_seat = 10"
      "req_numSeats carol_one_seat = 1" "SYSTEM_FEE quarter_fee = Finite (1 / 4)"
    by (simp_all add: tea_state_def tea_split_def carol_one_seat_def quarter_fee_def)
  have i: "round_double 23 = Finite 23" "round_double 5 = Finite 5"
      "round_double 1 = Finite 1" "round_double 10 = Finite 10"
      "round_double 4 = Finite 4" "round_double 3 = Finite 3"
    by code_simp+
  have n: "round_double (460 / 100) = Finite ?A" "round_double (115 / 100) = Finite ?B"
    by code_simp+
  have p1: "js_divide (Finite 23) (Finite 5) = Finite ?A"
    by code_simp
  have p2: "js_times (Finite ?A) (Finite 1) = Finite ?A"
    by code_simp
  have p3: "parseFloat_toFixed2 (Finite ?A) = Finite ?A"
    by code_simp
  have p4: "js_times (Finite ?A) (Finite (1 / 4)) = Finite ?B"
    by code_simp
  have p5: "parseFloat_toFixed2 (Finite ?B) = Finite ?B"
    by code_simp
  have p6: "js_plus (Finite ?A) (Finite ?B) = Finite (23 / 4)"
    by code_simp
  have p7: "js_times (Finite (23 / 4)) (Finite 100) = Finite 575"
    by code_simp
  have p8: "parseInt (Finite 575) = Finite 575"
    by code_simp
  have p9: "js_times (Finite ?B) (Finite 100) = Finite ?C"
    by code_simp
  have p10: "parseInt (Finite ?C) = Finite 114"
    by code_simp
  have b: "parseFloat_toFixed2 (js_times (round_double (460 / 100)) (Finite (1 / 4)))
       = round_double (115 / 100)"
    by (simp only: n p4 p5)
  have c: "parseInt (js_times (round_double (115 / 100)) (Finite 100)) = Finite 114"
    by (simp only: n p9 p10)
  have d: "orders_calcAmount quarter_fee tea_split 1 = (Finite 575, Finite 114)"
    by (simp add: orders_calcAmount_def Let_def a i p1 p2 p3 p4 p5 p6 p7 p8 p9 p10)
  have q1: "js_divide (Finite 10) (Finite 4) = Finite (5 / 2)"
    by code_simp
  have q2: "js_times (Finite (5 / 2)) (Finite 3) = Finite (15 / 2)"
    by code_simp
  have q3: "parseFloat_toFixed2 (Finite (15 / 2)) = Finite (15 / 2)"
    by code_simp
  have q4: "js_times (Finite (15 / 2)) (Finite (1 / 4)) = Finite (15 / 8)"
    by code_simp
  have q5: "parseFloat_toFixed2 (Finite (15 / 8)) = Finite ?F"
    by code_simp
  have q6: "js_plus (Finite (15 / 2)) (Finite ?F) = Finite ?S"
    by code_simp
  have q7: "js_times (Finite ?S) (Finite 100) = Finite ?T"
    by code_simp
  have q8: "parseInt (Finite ?T) = Finite 937"
    by code_simp
  have q9: "js_times (Finite ?F) (Finite 100) = Finite 188"
    by code_simp
  have q10: "parseInt (Finite 188) = Finite 188"
    by code_simp
  have g: "orders_calcAmount quarter_fee (tea_split\<lparr>price := 10, numPlaces := 4\<rparr>) 3
       = (Finite 937, Finite 188)"
    by (simp add: orders_calcAmount_def Let_def a i q1 q2 q3 q4 q5 q6 q7 q8 q9 q10)
  have t: "placesLeft tea_split = 4" "user tea_split = alice" "status tea_split = ACTIVE"
      "conversation tea_split = Some 11" "title tea_split = ''Green tea''"
    by (simp_all add: tea_split_def)
  have e: "response_amounts (fst (orders_create quarter_fee ctx_carol carol_one_seat tea_state))
       = Some (Finite 575, Finite 114)"
    by (simp add: response_amounts_def orders_create_def create_try_def existingOrder_def
        create_checked_def create_transaction_def build_order_def splits_join_def
        conversation_of_def checkMember_def splits_incrementNumSeats_def Let_def
        getPaymentIntent_def ok_response_def tea_state_def busy_stripe_def sample_stripe_def
        sample_users_def carol_one_seat_def ctx_carol_def alice_def bob_def carol_def t d)
  have f: "getPaymentIntent_request quarter_fee 10 1 tea_state
       = Inr (''acct_alice'', Finite 575, Finite 114)"
    by (simp add: getPaymentIntent_request_def truthy_def tea_state_def sample_users_def
        alice_def bob_def carol_def t d)
  have h: "price tea_split / of_int (numPlaces tea_split)
             * of_int (req_numSeats carol_one_seat) * 100 = 460"
    by (simp add: a)
  show ?thesis
    using a b c d e f g unfolding h by simp
qed

theorem calcAmount_cuts_a_cent_witness:
  "truthy 1 \<and> (0 :: int) < 1
   \<and> getPaymentIntent_request quarter_fee 10 1 tea_state
       = Inr (''acct_alice'', Finite 575, Finite 114)
   \<and> snd (orders_calcAmount quarter_fee tea_split 1) = Finite 114
   \<and> Finite 114 \<noteq> Finite 115"
  using calcAmount_cuts_a_cent by (simp add: truthy_def)

end
